theory Spec2Isabelle
  imports Main
begin

unbundle bit_operations_syntax

section \<open>Python values, exceptions and strings\<close>

text \<open>
  The validators of \<^verbatim>\<open>src/validators/ip_address.py\<close> are two function bodies around the
  constructors \<^verbatim>\<open>IPv4Address\<close>, \<^verbatim>\<open>IPv4Network\<close>, \<^verbatim>\<open>IPv6Address\<close> and \<^verbatim>\<open>IPv6Network\<close>
  of CPython's \<^verbatim>\<open>ipaddress\<close> module. A raised exception is the left summand of a sum type.
  \<^verbatim>\<open>AddressValueError\<close> and \<^verbatim>\<open>NetmaskValueError\<close> are subclasses of \<^verbatim>\<open>ValueError\<close>;
  \<open>OtherException\<close> stands for every exception class outside that hierarchy
  (\<^verbatim>\<open>IndexError\<close>, \<^verbatim>\<open>TypeError\<close>, ...), which no \<^verbatim>\<open>except\<close> clause of this code catches.
\<close>

datatype py_exception = ValueError | AddressValueError | NetmaskValueError | OtherException

text \<open>\<^verbatim>\<open>isinstance(e, ValueError)\<close>, \<^verbatim>\<open>isinstance(e, AddressValueError)\<close> and
  \<^verbatim>\<open>isinstance(e, NetmaskValueError)\<close>.\<close>

fun is_ValueError :: "py_exception \<Rightarrow> bool" where
  "is_ValueError ValueError = True"
| "is_ValueError AddressValueError = True"
| "is_ValueError NetmaskValueError = True"
| "is_ValueError OtherException = False"

fun is_AddressValueError :: "py_exception \<Rightarrow> bool" where
  "is_AddressValueError AddressValueError = True"
| "is_AddressValueError e = False"

fun is_NetmaskValueError :: "py_exception \<Rightarrow> bool" where
  "is_NetmaskValueError NetmaskValueError = True"
| "is_NetmaskValueError e = False"

text \<open>\<^verbatim>\<open>s.split(sep)\<close> for a separator of one character: never the empty list.\<close>

fun str_split :: "char \<Rightarrow> string \<Rightarrow> string list" where
  "str_split sep [] = [[]]"
| "str_split sep (c # cs) =
     (if c = sep then [] # str_split sep cs
      else (case str_split sep cs of
              [] \<Rightarrow> [[c]]
            | p # ps \<Rightarrow> (c # p) # ps))"

text \<open>\<^verbatim>\<open>s.partition(sep)\<close>: the part before the first separator, the separator found
  (empty when there is none) and the part after it.\<close>

fun str_partition :: "char \<Rightarrow> string \<Rightarrow> string \<times> string \<times> string" where
  "str_partition sep [] = ([], [], [])"
| "str_partition sep (c # cs) =
     (if c = sep then ([], [c], cs)
      else (case str_partition sep cs of (a, s, b) \<Rightarrow> (c # a, s, b)))"

text \<open>\<^verbatim>\<open>s.isascii()\<close>, and \<^verbatim>\<open>s.isdigit()\<close> on ASCII strings (every call of the source is
  \<^verbatim>\<open>s.isascii() and s.isdigit()\<close>); \<^verbatim>\<open>''.isdigit()\<close> is false.\<close>

definition isdigit_char :: "char \<Rightarrow> bool" where
  "isdigit_char c = (c \<in> set ''0123456789'')"

definition str_isascii :: "string \<Rightarrow> bool" where
  "str_isascii s = list_all (\<lambda>c. (of_char c :: nat) < 128) s"

definition str_isdigit :: "string \<Rightarrow> bool" where
  "str_isdigit s = (s \<noteq> [] \<and> list_all isdigit_char s)"

text \<open>The value of a string of decimal digits.\<close>

definition int_of_digits :: "string \<Rightarrow> int" where
  "int_of_digits s = foldl (\<lambda>a c. 10 * a + (int (of_char c) - 48)) 0 s"

text \<open>\<^verbatim>\<open>int(s)\<close> and \<^verbatim>\<open>int(s, 10)\<close>, called by the source on non-empty strings of ASCII
  digits only. CPython (from 3.11, and the security releases before it) raises
  \<^verbatim>\<open>ValueError\<close> when the string has more than \<^verbatim>\<open>sys.get_int_max_str_digits()\<close> digits;
  the default limit is 4300.\<close>

definition int_max_str_digits :: nat where
  "int_max_str_digits = 4300"

definition py_int :: "string \<Rightarrow> py_exception + int" where
  "py_int s = (if length s > int_max_str_digits then Inl ValueError
               else Inr (int_of_digits s))"

text \<open>\<^verbatim>\<open>n.bit_length()\<close>: the number of bits of the absolute value.\<close>

fun bit_length_nat :: "nat \<Rightarrow> nat" where
  "bit_length_nat n = (if n = 0 then 0 else Suc (bit_length_nat (n div 2)))"

definition bit_length :: "int \<Rightarrow> int" where
  "bit_length n = int (bit_length_nat (nat \<bar>n\<bar>))"

section \<open>The ipaddress module: shared helpers\<close>

text \<open>The mask handed to \<^verbatim>\<open>_make_netmask\<close> is the string after the slash, or the integer
  \<^verbatim>\<open>_max_prefixlen\<close> when the value has no slash.\<close>

datatype netmask_arg = MaskStr string | MaskInt int

definition split_optional_netmask :: "string \<Rightarrow> py_exception + string list" where
  "split_optional_netmask address =
     (let addr = str_split CHR ''/'' address
      in if length addr > 2 then Inl AddressValueError else Inr addr)"

text \<open>\<^verbatim>\<open>_split_addr_prefix\<close> on a string: a list of two parts is returned as it is and
  unpacked by the caller, a list of one part gets the maximal prefix length.
  \<^verbatim>\<open>address[0]\<close> on an empty list would raise \<^verbatim>\<open>IndexError\<close>, and unpacking a longer
  list into two names would raise \<^verbatim>\<open>ValueError\<close>.\<close>

definition split_addr_prefix :: "int \<Rightarrow> string \<Rightarrow> py_exception + string \<times> netmask_arg" where
  "split_addr_prefix max_prefixlen address =
     (case split_optional_netmask address of
        Inl e \<Rightarrow> Inl e
      | Inr parts \<Rightarrow>
          (if length parts > 1 then
             (case parts of
                [addr, mask_str] \<Rightarrow> Inr (addr, MaskStr mask_str)
              | _ \<Rightarrow> Inl ValueError)
           else
             (case parts of
                [] \<Rightarrow> Inl OtherException
              | addr # _ \<Rightarrow> Inr (addr, MaskInt max_prefixlen))))"

definition ip_int_from_prefix :: "int \<Rightarrow> int \<Rightarrow> int" where
  "ip_int_from_prefix all_ones prefixlen = all_ones XOR drop_bit (nat prefixlen) all_ones"

definition count_righthand_zero_bits :: "int \<Rightarrow> int \<Rightarrow> int" where
  "count_righthand_zero_bits number bits =
     (if number = 0 then bits
      else min bits (bit_length (NOT number AND (number - 1))))"

definition prefix_from_ip_int :: "int \<Rightarrow> int \<Rightarrow> py_exception + int" where
  "prefix_from_ip_int max_prefixlen ip_int =
     (let trailing_zeroes = count_righthand_zero_bits ip_int max_prefixlen;
          prefixlen = max_prefixlen - trailing_zeroes;
          leading_ones = drop_bit (nat trailing_zeroes) ip_int;
          all_ones = push_bit (nat prefixlen) 1 - 1
      in if leading_ones \<noteq> all_ones then Inl ValueError else Inr prefixlen)"

definition prefix_from_prefix_string :: "int \<Rightarrow> string \<Rightarrow> py_exception + int" where
  "prefix_from_prefix_string max_prefixlen prefixlen_str =
     (if \<not> (str_isascii prefixlen_str \<and> str_isdigit prefixlen_str) then Inl NetmaskValueError
      else
        (case py_int prefixlen_str of
           Inl e \<Rightarrow> (if is_ValueError e then Inl NetmaskValueError else Inl e)
         | Inr prefixlen \<Rightarrow>
             (if \<not> (0 \<le> prefixlen \<and> prefixlen \<le> max_prefixlen) then Inl NetmaskValueError
              else Inr prefixlen)))"

text \<open>\<^verbatim>\<open>_check_int_address\<close>, the test of the constructors on an integer.\<close>

definition check_int_address :: "int \<Rightarrow> int \<Rightarrow> py_exception + unit" where
  "check_int_address all_ones address =
     (if address < 0 then Inl AddressValueError
      else if address > all_ones then Inl AddressValueError
      else Inr ())"

section \<open>The ipaddress module: IPv4\<close>

definition IPV4LENGTH :: int where
  "IPV4LENGTH = 32"

definition V4_ALL_ONES :: int where
  "V4_ALL_ONES = 2 ^ 32 - 1"

record ipv4_address =
  v4_ip :: int

record ipv4_network =
  v4_network_address :: ipv4_address
  v4_netmask :: ipv4_address
  v4_prefixlen :: int

definition parse_octet :: "string \<Rightarrow> py_exception + int" where
  "parse_octet octet_str =
     (if octet_str = [] then Inl ValueError
      else if \<not> (str_isascii octet_str \<and> str_isdigit octet_str) then Inl ValueError
      else if length octet_str > 3 then Inl ValueError
      else if octet_str \<noteq> ''0'' \<and> hd octet_str = CHR ''0'' then Inl ValueError
      else
        (case py_int octet_str of
           Inl e \<Rightarrow> Inl e
         | Inr octet_int \<Rightarrow> (if octet_int > 255 then Inl ValueError else Inr octet_int)))"

text \<open>\<^verbatim>\<open>map(cls._parse_octet, octets)\<close> as \<^verbatim>\<open>int.from_bytes\<close> consumes it: the first octet
  that fails raises.\<close>

fun parse_octets :: "string list \<Rightarrow> py_exception + int list" where
  "parse_octets [] = Inr []"
| "parse_octets (octet_str # rest) =
     (case parse_octet octet_str of
        Inl e \<Rightarrow> Inl e
      | Inr b \<Rightarrow> (case parse_octets rest of Inl e \<Rightarrow> Inl e | Inr bs \<Rightarrow> Inr (b # bs)))"

definition int_from_bytes_big :: "int list \<Rightarrow> int" where
  "int_from_bytes_big bs = foldl (\<lambda>a b. 256 * a + b) 0 bs"

definition v4_ip_int_from_string :: "string \<Rightarrow> py_exception + int" where
  "v4_ip_int_from_string ip_str =
     (if ip_str = [] then Inl AddressValueError
      else
        (let octets = str_split CHR ''.'' ip_str
         in if length octets \<noteq> 4 then Inl AddressValueError
            else
              (case parse_octets octets of
                 Inl e \<Rightarrow> (if is_ValueError e then Inl AddressValueError else Inl e)
               | Inr bs \<Rightarrow> Inr (int_from_bytes_big bs))))"

text \<open>The constructor \<^verbatim>\<open>IPv4Address\<close> on a string, and on an integer.\<close>

definition IPv4Address :: "string \<Rightarrow> py_exception + ipv4_address" where
  "IPv4Address address =
     (if CHR ''/'' \<in> set address then Inl AddressValueError
      else
        (case v4_ip_int_from_string address of
           Inl e \<Rightarrow> Inl e
         | Inr n \<Rightarrow> Inr \<lparr>v4_ip = n\<rparr>))"

definition IPv4Address_of_int :: "int \<Rightarrow> py_exception + ipv4_address" where
  "IPv4Address_of_int address =
     (case check_int_address V4_ALL_ONES address of
        Inl e \<Rightarrow> Inl e
      | Inr _ \<Rightarrow> Inr \<lparr>v4_ip = address\<rparr>)"

definition v4_prefix_from_ip_string :: "string \<Rightarrow> py_exception + int" where
  "v4_prefix_from_ip_string ip_str =
     (case v4_ip_int_from_string ip_str of
        Inl e \<Rightarrow> (if is_AddressValueError e then Inl NetmaskValueError else Inl e)
      | Inr ip_int \<Rightarrow>
          (case prefix_from_ip_int IPV4LENGTH ip_int of
             Inr prefixlen \<Rightarrow> Inr prefixlen
           | Inl e \<Rightarrow>
               (if \<not> is_ValueError e then Inl e
                else
                  (case prefix_from_ip_int IPV4LENGTH (ip_int XOR V4_ALL_ONES) of
                     Inr prefixlen \<Rightarrow> Inr prefixlen
                   | Inl e' \<Rightarrow> (if is_ValueError e' then Inl NetmaskValueError else Inl e')))))"

text \<open>\<^verbatim>\<open>_BaseV4._make_netmask\<close>. The class keeps the pairs it has computed in
  \<^verbatim>\<open>_netmask_cache\<close>, keyed by the argument. This is the computation for a key that the
  cache does not hold; \<open>v4_make_netmask_st\<close> below is the method with its cache.\<close>

definition v4_make_netmask :: "netmask_arg \<Rightarrow> py_exception + ipv4_address \<times> int" where
  "v4_make_netmask arg =
     (case (case arg of
              MaskInt prefixlen \<Rightarrow>
                (if \<not> (0 \<le> prefixlen \<and> prefixlen \<le> IPV4LENGTH) then Inl NetmaskValueError
                 else Inr prefixlen)
            | MaskStr s \<Rightarrow>
                (case prefix_from_prefix_string IPV4LENGTH s of
                   Inr prefixlen \<Rightarrow> Inr prefixlen
                 | Inl e \<Rightarrow>
                     (if is_NetmaskValueError e then v4_prefix_from_ip_string s else Inl e))) of
        Inl e \<Rightarrow> Inl e
      | Inr prefixlen \<Rightarrow>
          (case IPv4Address_of_int (ip_int_from_prefix V4_ALL_ONES prefixlen) of
             Inl e \<Rightarrow> Inl e
           | Inr netmask \<Rightarrow> Inr (netmask, prefixlen)))"

text \<open>The constructor \<^verbatim>\<open>IPv4Network(address, strict)\<close> on a string. The \<^verbatim>\<open>hosts\<close>
  attribute it sets at the end is not part of the model.\<close>

definition IPv4Network :: "string \<Rightarrow> bool \<Rightarrow> py_exception + ipv4_network" where
  "IPv4Network address strict =
     (case split_addr_prefix IPV4LENGTH address of
        Inl e \<Rightarrow> Inl e
      | Inr (addr, mask_arg) \<Rightarrow>
          (case IPv4Address addr of
             Inl e \<Rightarrow> Inl e
           | Inr network_address \<Rightarrow>
               (case v4_make_netmask mask_arg of
                  Inl e \<Rightarrow> Inl e
                | Inr (netmask, prefixlen) \<Rightarrow>
                    (let packed = v4_ip network_address
                     in if packed AND v4_ip netmask \<noteq> packed then
                          (if strict then Inl ValueError
                           else
                             (case IPv4Address_of_int (packed AND v4_ip netmask) of
                                Inl e \<Rightarrow> Inl e
                              | Inr network_address' \<Rightarrow>
                                  Inr \<lparr>v4_network_address = network_address',
                                       v4_netmask = netmask,
                                       v4_prefixlen = prefixlen\<rparr>))
                        else
                          Inr \<lparr>v4_network_address = network_address,
                               v4_netmask = netmask,
                               v4_prefixlen = prefixlen\<rparr>))))"

section \<open>The ipaddress module: IPv6\<close>

definition IPV6LENGTH :: int where
  "IPV6LENGTH = 128"

definition V6_ALL_ONES :: int where
  "V6_ALL_ONES = 2 ^ 128 - 1"

definition HEXTET_COUNT :: int where
  "HEXTET_COUNT = 8"

definition HEX_DIGITS :: "char set" where
  "HEX_DIGITS = set ''0123456789ABCDEFabcdef''"

record ipv6_address =
  v6_ip :: int
  v6_scope_id :: "string option"

record ipv6_network =
  v6_network_address :: ipv6_address
  v6_netmask :: ipv6_address
  v6_prefixlen :: int

text \<open>\<^verbatim>\<open>'%x' % n\<close> for a non-negative integer: lower-case hexadecimal, no leading zero.\<close>

definition hex_digit_char :: "nat \<Rightarrow> char" where
  "hex_digit_char d = ''0123456789abcdef'' ! d"

fun format_x_nat :: "nat \<Rightarrow> string" where
  "format_x_nat n =
     (if n < 16 then [hex_digit_char n]
      else format_x_nat (n div 16) @ [hex_digit_char (n mod 16)])"

definition format_x :: "int \<Rightarrow> string" where
  "format_x n = format_x_nat (nat n)"

text \<open>\<^verbatim>\<open>int(s, 16)\<close>, called by the source on strings of hexadecimal digits only, of at
  most four characters: the empty string raises \<^verbatim>\<open>ValueError\<close>.\<close>

definition hex_value :: "char \<Rightarrow> int" where
  "hex_value c =
     (if isdigit_char c then int (of_char c) - 48
      else if c \<in> set ''abcdef'' then int (of_char c) - 87
      else int (of_char c) - 55)"

definition py_int16 :: "string \<Rightarrow> py_exception + int" where
  "py_int16 s =
     (if s = [] then Inl ValueError
      else Inr (foldl (\<lambda>a c. 16 * a + hex_value c) 0 s))"

definition parse_hextet :: "string \<Rightarrow> py_exception + int" where
  "parse_hextet hextet_str =
     (if \<not> set hextet_str \<subseteq> HEX_DIGITS then Inl ValueError
      else if length hextet_str > 4 then Inl ValueError
      else py_int16 hextet_str)"

text \<open>\<^verbatim>\<open>parts[i]\<close>: a negative index counts from the end, an index out of range raises
  \<^verbatim>\<open>IndexError\<close>.\<close>

definition getitem :: "string list \<Rightarrow> int \<Rightarrow> py_exception + string" where
  "getitem parts i =
     (let n = int (length parts); j = (if i < 0 then n + i else i)
      in if 0 \<le> j \<and> j < n then Inr (parts ! nat j) else Inl OtherException)"

text \<open>The loop \<^verbatim>\<open>for i in range(1, len(parts) - 1)\<close> that looks for the one empty part
  of a \<^verbatim>\<open>::\<close>; the indices still to visit are the second argument.\<close>

fun find_skip_index :: "string list \<Rightarrow> nat list \<Rightarrow> nat option \<Rightarrow> py_exception + nat option" where
  "find_skip_index parts [] skip_index = Inr skip_index"
| "find_skip_index parts (i # rest) skip_index =
     (if parts ! i = [] then
        (if skip_index \<noteq> None then Inl AddressValueError
         else find_skip_index parts rest (Some i))
      else find_skip_index parts rest skip_index)"

text \<open>The two loops \<^verbatim>\<open>ip_int <<= 16; ip_int |= cls._parse_hextet(parts[i])\<close>.\<close>

fun hextet_loop :: "string list \<Rightarrow> int list \<Rightarrow> int \<Rightarrow> py_exception + int" where
  "hextet_loop parts [] ip_int = Inr ip_int"
| "hextet_loop parts (i # rest) ip_int =
     (case getitem parts i of
        Inl e \<Rightarrow> Inl e
      | Inr hextet_str \<Rightarrow>
          (case parse_hextet hextet_str of
             Inl e \<Rightarrow> Inl e
           | Inr h \<Rightarrow> hextet_loop parts rest (push_bit 16 ip_int OR h)))"

text \<open>The part of \<^verbatim>\<open>_BaseV6._ip_int_from_string\<close> that computes \<^verbatim>\<open>parts_hi\<close>,
  \<^verbatim>\<open>parts_lo\<close> and \<^verbatim>\<open>parts_skipped\<close> from \<^verbatim>\<open>skip_index\<close>.\<close>

definition parts_layout :: "string list \<Rightarrow> nat option \<Rightarrow> py_exception + int \<times> int \<times> int" where
  "parts_layout parts skip_index =
     (case skip_index of
        Some si \<Rightarrow>
          (let parts_hi = int si;
               parts_lo = int (length parts) - int si - 1
           in if parts ! 0 = [] \<and> parts_hi - 1 \<noteq> 0 then Inl AddressValueError
              else
                (let parts_hi = (if parts ! 0 = [] then parts_hi - 1 else parts_hi)
                 in if last parts = [] \<and> parts_lo - 1 \<noteq> 0 then Inl AddressValueError
                    else
                      (let parts_lo = (if last parts = [] then parts_lo - 1 else parts_lo);
                           parts_skipped = HEXTET_COUNT - (parts_hi + parts_lo)
                       in if parts_skipped < 1 then Inl AddressValueError
                          else Inr (parts_hi, parts_lo, parts_skipped))))
      | None \<Rightarrow>
          (if int (length parts) \<noteq> HEXTET_COUNT then Inl AddressValueError
           else if parts ! 0 = [] then Inl AddressValueError
           else if last parts = [] then Inl AddressValueError
           else Inr (int (length parts), 0, 0)))"

text \<open>\<^verbatim>\<open>_BaseV6._ip_int_from_string\<close> from the test of the number of colons on, on the
  list of parts (with an IPv4 suffix already replaced by its two hextets).\<close>

definition v6_ip_int_from_parts :: "string list \<Rightarrow> py_exception + int" where
  "v6_ip_int_from_parts parts =
     (if int (length parts) > HEXTET_COUNT + 1 then Inl AddressValueError
      else
        (case find_skip_index parts [1 ..< length parts - 1] None of
           Inl e \<Rightarrow> Inl e
         | Inr skip_index \<Rightarrow>
             (case parts_layout parts skip_index of
                Inl e \<Rightarrow> Inl e
              | Inr (parts_hi, parts_lo, parts_skipped) \<Rightarrow>
                  (case (case hextet_loop parts [0 .. parts_hi - 1] 0 of
                           Inl e \<Rightarrow> Inl e
                         | Inr ip_int \<Rightarrow>
                             hextet_loop parts [- parts_lo .. - 1]
                               (push_bit (nat (16 * parts_skipped)) ip_int)) of
                     Inl e \<Rightarrow> (if is_ValueError e then Inl AddressValueError else Inl e)
                   | Inr ip_int \<Rightarrow> Inr ip_int))))"

definition v6_ip_int_from_string :: "string \<Rightarrow> py_exception + int" where
  "v6_ip_int_from_string ip_str =
     (if ip_str = [] then Inl AddressValueError
      else
        (let parts = str_split CHR '':'' ip_str
         in if length parts < 3 then Inl AddressValueError
            else if CHR ''.'' \<in> set (last parts) then
              (case IPv4Address (last parts) of
                 Inl e \<Rightarrow> (if is_AddressValueError e then Inl AddressValueError else Inl e)
               | Inr a \<Rightarrow>
                   v6_ip_int_from_parts
                     (butlast parts @
                      [format_x (drop_bit 16 (v4_ip a) AND 0xFFFF),
                       format_x (v4_ip a AND 0xFFFF)]))
            else v6_ip_int_from_parts parts))"

definition split_scope_id :: "string \<Rightarrow> py_exception + string \<times> string option" where
  "split_scope_id ip_str =
     (case str_partition CHR ''%'' ip_str of
        (addr, sep, scope_id) \<Rightarrow>
          (if sep = [] then Inr (addr, None)
           else if scope_id = [] \<or> CHR ''%'' \<in> set scope_id then Inl AddressValueError
           else Inr (addr, Some scope_id)))"

text \<open>The constructor \<^verbatim>\<open>IPv6Address\<close> on a string, and on an integer.\<close>

definition IPv6Address :: "string \<Rightarrow> py_exception + ipv6_address" where
  "IPv6Address address =
     (if CHR ''/'' \<in> set address then Inl AddressValueError
      else
        (case split_scope_id address of
           Inl e \<Rightarrow> Inl e
         | Inr (addr_str, scope_id) \<Rightarrow>
             (case v6_ip_int_from_string addr_str of
                Inl e \<Rightarrow> Inl e
              | Inr n \<Rightarrow> Inr \<lparr>v6_ip = n, v6_scope_id = scope_id\<rparr>)))"

definition IPv6Address_of_int :: "int \<Rightarrow> py_exception + ipv6_address" where
  "IPv6Address_of_int address =
     (case check_int_address V6_ALL_ONES address of
        Inl e \<Rightarrow> Inl e
      | Inr _ \<Rightarrow> Inr \<lparr>v6_ip = address, v6_scope_id = None\<rparr>)"

text \<open>\<^verbatim>\<open>_BaseV6._make_netmask\<close> for a key that the cache does not hold
  (\<open>v6_make_netmask_st\<close> below is the method with its cache): only a prefix length is
  accepted after the slash.\<close>

definition v6_make_netmask :: "netmask_arg \<Rightarrow> py_exception + ipv6_address \<times> int" where
  "v6_make_netmask arg =
     (case (case arg of
              MaskInt prefixlen \<Rightarrow>
                (if \<not> (0 \<le> prefixlen \<and> prefixlen \<le> IPV6LENGTH) then Inl NetmaskValueError
                 else Inr prefixlen)
            | MaskStr s \<Rightarrow> prefix_from_prefix_string IPV6LENGTH s) of
        Inl e \<Rightarrow> Inl e
      | Inr prefixlen \<Rightarrow>
          (case IPv6Address_of_int (ip_int_from_prefix V6_ALL_ONES prefixlen) of
             Inl e \<Rightarrow> Inl e
           | Inr netmask \<Rightarrow> Inr (netmask, prefixlen)))"

text \<open>The constructor \<^verbatim>\<open>IPv6Network(address, strict)\<close> on a string.\<close>

definition IPv6Network :: "string \<Rightarrow> bool \<Rightarrow> py_exception + ipv6_network" where
  "IPv6Network address strict =
     (case split_addr_prefix IPV6LENGTH address of
        Inl e \<Rightarrow> Inl e
      | Inr (addr, mask_arg) \<Rightarrow>
          (case IPv6Address addr of
             Inl e \<Rightarrow> Inl e
           | Inr network_address \<Rightarrow>
               (case v6_make_netmask mask_arg of
                  Inl e \<Rightarrow> Inl e
                | Inr (netmask, prefixlen) \<Rightarrow>
                    (let packed = v6_ip network_address
                     in if packed AND v6_ip netmask \<noteq> packed then
                          (if strict then Inl ValueError
                           else
                             (case IPv6Address_of_int (packed AND v6_ip netmask) of
                                Inl e \<Rightarrow> Inl e
                              | Inr network_address' \<Rightarrow>
                                  Inr \<lparr>v6_network_address = network_address',
                                       v6_netmask = netmask,
                                       v6_prefixlen = prefixlen\<rparr>))
                        else
                          Inr \<lparr>v6_network_address = network_address,
                               v6_netmask = netmask,
                               v6_prefixlen = prefixlen\<rparr>))))"

section \<open>The validators\<close>

text \<open>
  What a validator body returns: the literal \<^verbatim>\<open>False\<close>, or the object the constructor
  built. (\<open>PyBool True\<close> is the literal \<^verbatim>\<open>True\<close>, which no \<^verbatim>\<open>return\<close> of the source
  produces.) The objects define neither \<^verbatim>\<open>__bool__\<close> nor \<^verbatim>\<open>__len__\<close>, so Python takes
  every one of them as true.
\<close>

datatype pyval =
    PyBool bool
  | V4Address ipv4_address
  | V4Network ipv4_network
  | V6Address ipv6_address
  | V6Network ipv6_network

fun truthy :: "pyval \<Rightarrow> bool" where
  "truthy (PyBool b) = b"
| "truthy (V4Address a) = True"
| "truthy (V4Network n) = True"
| "truthy (V6Address a) = True"
| "truthy (V6Network n) = True"

text \<open>The clause \<^verbatim>\<open>except (ValueError, AddressValueError, NetmaskValueError): return False\<close>
  around the body of the \<^verbatim>\<open>try\<close>: an exception of another class escapes.\<close>

definition except_return_False :: "py_exception + pyval \<Rightarrow> py_exception + pyval" where
  "except_return_False r =
     (case r of
        Inl e \<Rightarrow>
          (if is_ValueError e \<or> is_AddressValueError e \<or> is_NetmaskValueError e
           then Inr (PyBool False) else Inl e)
      | Inr v \<Rightarrow> Inr v)"

text \<open>
  The body of \<^verbatim>\<open>ipv4(value, cidr, strict, host_bit)\<close>, with the two constructors it calls
  as parameters; \<open>Inl\<close> is an exception that leaves the function. This is the function
  that line 17 hands to the decorator \<^verbatim>\<open>@validator\<close>; the decorated function is
  \<open>ipv4_decorated\<close> below.
\<close>

definition ipv4_with ::
  "(string \<Rightarrow> bool \<Rightarrow> py_exception + ipv4_network) \<Rightarrow> (string \<Rightarrow> py_exception + ipv4_address) \<Rightarrow>
   string \<Rightarrow> bool \<Rightarrow> bool \<Rightarrow> bool \<Rightarrow> py_exception + pyval" where
  "ipv4_with Network Address value cidr strict host_bit =
     (if value = [] then Inr (PyBool False)
      else
        except_return_False
          (if cidr then
             (if strict \<and> count_list value CHR ''/'' \<noteq> 1 then Inl ValueError
              else
                (case Network value (\<not> host_bit) of
                   Inl e \<Rightarrow> Inl e
                 | Inr n \<Rightarrow> Inr (V4Network n)))
           else
             (case Address value of
                Inl e \<Rightarrow> Inl e
              | Inr a \<Rightarrow> Inr (V4Address a))))"

definition ipv4 :: "string \<Rightarrow> bool \<Rightarrow> bool \<Rightarrow> bool \<Rightarrow> py_exception + pyval" where
  "ipv4 value cidr strict host_bit = ipv4_with IPv4Network IPv4Address value cidr strict host_bit"

text \<open>The body of \<^verbatim>\<open>ipv6(value, cidr, strict, host_bit)\<close>, in the same way; the
  decorated function of line 65 is \<open>ipv6_decorated\<close> below.\<close>

definition ipv6_with ::
  "(string \<Rightarrow> bool \<Rightarrow> py_exception + ipv6_network) \<Rightarrow> (string \<Rightarrow> py_exception + ipv6_address) \<Rightarrow>
   string \<Rightarrow> bool \<Rightarrow> bool \<Rightarrow> bool \<Rightarrow> py_exception + pyval" where
  "ipv6_with Network Address value cidr strict host_bit =
     (if value = [] then Inr (PyBool False)
      else
        except_return_False
          (if cidr then
             (if strict \<and> count_list value CHR ''/'' \<noteq> 1 then Inl ValueError
              else
                (case Network value (\<not> host_bit) of
                   Inl e \<Rightarrow> Inl e
                 | Inr n \<Rightarrow> Inr (V6Network n)))
           else
             (case Address value of
                Inl e \<Rightarrow> Inl e
              | Inr a \<Rightarrow> Inr (V6Address a))))"

definition ipv6 :: "string \<Rightarrow> bool \<Rightarrow> bool \<Rightarrow> bool \<Rightarrow> py_exception + pyval" where
  "ipv6 value cidr strict host_bit = ipv6_with IPv6Network IPv6Address value cidr strict host_bit"

text \<open>A call succeeds when it returns a value that Python takes as true.\<close>

definition succeeds :: "py_exception + pyval \<Rightarrow> bool" where
  "succeeds r = (case r of Inl e \<Rightarrow> False | Inr v \<Rightarrow> truthy v)"

section \<open>The decorator\<close>








section \<open>The validators over the state of the ipaddress module\<close>










section \<open>Code equations on integers\<close>

text \<open>The two functions that go through the natural numbers, restated on the integers:
  the same values, computed on the binary representation.\<close>

lemma format_x_code [code]:
  "format_x n =
     (if n < 16 then [hex_digit_char (nat n)]
      else format_x (n div 16) @ [hex_digit_char (nat (n mod 16))])"
proof (cases "n < 16")
  case True
  then show ?thesis
    by (simp add: format_x_def)
next
  case False
  then have "format_x_nat (nat n) =
      format_x_nat (nat n div 16) @ [hex_digit_char (nat n mod 16)]"
    by (subst format_x_nat.simps) simp
  moreover have "nat n div 16 = nat (n div 16)" "nat n mod 16 = nat (n mod 16)"
    using False by (simp_all add: nat_div_distrib nat_mod_distrib)
  ultimately show ?thesis
    using False by (simp add: format_x_def)
qed

lemma bit_length_code [code]:
  "bit_length n = (if n = 0 then 0 else 1 + bit_length (\<bar>n\<bar> div 2))"
proof (cases "n = 0")
  case True
  then show ?thesis
    by (simp add: bit_length_def)
next
  case False
  then have "bit_length_nat (nat \<bar>n\<bar>) = Suc (bit_length_nat (nat \<bar>n\<bar> div 2))"
    by (subst bit_length_nat.simps) simp
  moreover have "nat \<bar>n\<bar> div 2 = nat \<bar>\<bar>n\<bar> div 2\<bar>"
    by (simp add: nat_div_distrib)
  ultimately show ?thesis
    using False by (simp add: bit_length_def)
qed

section \<open>Which exceptions the constructors raise\<close>

text \<open>Every exception that leaves a constructor called on a string is a \<^verbatim>\<open>ValueError\<close>
  or one of its two subclasses: the index and unpacking errors of the model are unreachable.\<close>

lemma str_split_not_Nil: "str_split sep s \<noteq> []"
  by (induction s) (auto split: list.splits)

lemma length_str_split: "length (str_split sep s) = Suc (count_list s sep)"
  by (induction s) (auto split: list.splits simp: str_split_not_Nil)

lemma py_int_error: "py_int s = Inl e \<Longrightarrow> e = ValueError"
  by (auto simp: py_int_def split: if_splits)

lemma parse_octet_error: "parse_octet s = Inl e \<Longrightarrow> e = ValueError"
  by (auto simp: parse_octet_def split: if_splits sum.splits dest: py_int_error)

lemma parse_octets_error: "parse_octets ss = Inl e \<Longrightarrow> e = ValueError"
  by (induction ss) (auto split: sum.splits dest: parse_octet_error)

lemma v4_ip_int_from_string_error: "v4_ip_int_from_string s = Inl e \<Longrightarrow> e = AddressValueError"
  by (auto simp: v4_ip_int_from_string_def Let_def split: if_splits sum.splits dest: parse_octets_error)

lemma IPv4Address_error: "IPv4Address s = Inl e \<Longrightarrow> e = AddressValueError"
  by (auto simp: IPv4Address_def split: if_splits sum.splits dest: v4_ip_int_from_string_error)

lemma prefix_from_prefix_string_error:
  "prefix_from_prefix_string m s = Inl e \<Longrightarrow> e = NetmaskValueError"
  by (auto simp: prefix_from_prefix_string_def split: if_splits sum.splits dest: py_int_error)

lemma prefix_from_ip_int_error: "prefix_from_ip_int m n = Inl e \<Longrightarrow> e = ValueError"
  by (auto simp: prefix_from_ip_int_def Let_def split: if_splits)

lemma v4_prefix_from_ip_string_error:
  "v4_prefix_from_ip_string s = Inl e \<Longrightarrow> e = NetmaskValueError"
  by (auto simp: v4_prefix_from_ip_string_def split: if_splits sum.splits
      dest: v4_ip_int_from_string_error prefix_from_ip_int_error)

lemma check_int_address_error: "check_int_address m n = Inl e \<Longrightarrow> e = AddressValueError"
  by (auto simp: check_int_address_def split: if_splits)

lemma IPv4Address_of_int_error: "IPv4Address_of_int n = Inl e \<Longrightarrow> e = AddressValueError"
  by (auto simp: IPv4Address_of_int_def split: sum.splits dest: check_int_address_error)

lemma v4_make_netmask_error: "v4_make_netmask a = Inl e \<Longrightarrow> is_ValueError e"
  by (auto simp: v4_make_netmask_def split: if_splits sum.splits netmask_arg.splits
      dest: IPv4Address_of_int_error prefix_from_prefix_string_error v4_prefix_from_ip_string_error)

lemma split_optional_netmask_error:
  "split_optional_netmask s = Inl e \<Longrightarrow> e = AddressValueError"
  by (auto simp: split_optional_netmask_def Let_def split: if_splits)

lemma split_optional_netmask_result:
  "split_optional_netmask s = Inr parts \<Longrightarrow> parts = str_split CHR ''/'' s \<and> length parts \<le> 2"
  by (auto simp: split_optional_netmask_def Let_def split: if_splits)

lemma split_optional_netmask_not_Nil: "split_optional_netmask s \<noteq> Inr []"
  by (auto simp: split_optional_netmask_def Let_def str_split_not_Nil split: if_splits)

lemma split_addr_prefix_error: "split_addr_prefix m s = Inl e \<Longrightarrow> is_ValueError e"
  by (auto simp: split_addr_prefix_def split_optional_netmask_not_Nil
      split: if_splits sum.splits list.splits dest: split_optional_netmask_error)

lemma IPv4Network_error: "IPv4Network s strict = Inl e \<Longrightarrow> is_ValueError e"
  by (auto simp: IPv4Network_def Let_def split: if_splits sum.splits prod.splits
      dest: split_addr_prefix_error IPv4Address_error v4_make_netmask_error IPv4Address_of_int_error)

lemma py_int16_error: "py_int16 s = Inl e \<Longrightarrow> e = ValueError"
  by (auto simp: py_int16_def split: if_splits)

lemma parse_hextet_error: "parse_hextet s = Inl e \<Longrightarrow> e = ValueError"
  by (auto simp: parse_hextet_def split: if_splits dest: py_int16_error)

lemma getitem_in_range:
  "- int (length parts) \<le> i \<Longrightarrow> i < int (length parts) \<Longrightarrow> \<exists>s. getitem parts i = Inr s"
  by (auto simp: getitem_def Let_def)

lemma hextet_loop_error:
  "hextet_loop parts idxs ip_int = Inl e \<Longrightarrow>
   \<forall>i \<in> set idxs. - int (length parts) \<le> i \<and> i < int (length parts) \<Longrightarrow> e = ValueError"
proof (induction idxs arbitrary: ip_int)
  case Nil
  then show ?case by simp
next
  case (Cons i rest)
  from Cons.prems(2) obtain s where s: "getitem parts i = Inr s"
    using getitem_in_range [of parts i] by auto
  show ?case
  proof (cases "parse_hextet s")
    case (Inl e')
    with s Cons.prems(1) show ?thesis by (auto dest: parse_hextet_error)
  next
    case (Inr h)
    with s Cons.prems show ?thesis by (auto intro: Cons.IH)
  qed
qed

lemma find_skip_index_error:
  "find_skip_index parts idxs sk = Inl e \<Longrightarrow> e = AddressValueError"
  by (induction idxs arbitrary: sk) (auto split: if_splits)

lemma find_skip_index_Some:
  "find_skip_index parts idxs sk = Inr (Some si) \<Longrightarrow> si \<in> set idxs \<or> sk = Some si"
  by (induction idxs arbitrary: sk) (auto split: if_splits)

lemma parts_layout_error: "parts_layout parts sk = Inl e \<Longrightarrow> e = AddressValueError"
  by (auto simp: parts_layout_def Let_def split: option.splits if_splits)

lemma parts_layout_bounds:
  assumes "parts_layout parts sk = Inr (parts_hi, parts_lo, parts_skipped)"
    and "\<And>si. sk = Some si \<Longrightarrow> 1 \<le> si \<and> si < length parts - 1"
  shows "0 \<le> parts_hi \<and> parts_hi \<le> int (length parts) \<and> 0 \<le> parts_lo \<and> parts_lo \<le> int (length parts)"
proof (cases sk)
  case None
  with assms(1) show ?thesis
    by (auto simp: parts_layout_def split: if_splits)
next
  case (Some si)
  with assms(2) have "1 \<le> si" "si < length parts - 1" by auto
  with Some assms(1) show ?thesis
    by (auto simp: parts_layout_def Let_def split: if_splits)
qed

lemma v6_ip_int_from_parts_error: "v6_ip_int_from_parts parts = Inl e \<Longrightarrow> e = AddressValueError"
proof -
  assume a: "v6_ip_int_from_parts parts = Inl e"
  show ?thesis
  proof (cases "int (length parts) > HEXTET_COUNT + 1")
    case True
    with a show ?thesis by (simp add: v6_ip_int_from_parts_def)
  next
    case False
    show ?thesis
    proof (cases "find_skip_index parts [1 ..< length parts - 1] None")
      case (Inl e1)
      with a False show ?thesis
        by (auto simp: v6_ip_int_from_parts_def dest: find_skip_index_error)
    next
      case (Inr sk)
      have skb: "\<And>si. sk = Some si \<Longrightarrow> 1 \<le> si \<and> si < length parts - 1"
        using find_skip_index_Some [of parts "[1 ..< length parts - 1]" None] Inr by auto
      show ?thesis
      proof (cases "parts_layout parts sk")
        case (Inl e2)
        with a False Inr show ?thesis
          by (auto simp: v6_ip_int_from_parts_def dest: parts_layout_error)
      next
        case (Inr lay)
        obtain parts_hi parts_lo parts_skipped where lay: "lay = (parts_hi, parts_lo, parts_skipped)"
          by (cases lay) auto
        from parts_layout_bounds [OF Inr [unfolded lay] skb]
        have b: "0 \<le> parts_hi" "parts_hi \<le> int (length parts)" "0 \<le> parts_lo" "parts_lo \<le> int (length parts)"
          by auto
        have r1: "\<forall>i \<in> set [0 .. parts_hi - 1]. - int (length parts) \<le> i \<and> i < int (length parts)"
          using b by auto
        have r2: "\<forall>i \<in> set [- parts_lo .. - 1]. - int (length parts) \<le> i \<and> i < int (length parts)"
          using b by auto
        from a False \<open>find_skip_index parts [1 ..< length parts - 1] None = Inr sk\<close> Inr lay
        show ?thesis
          by (auto simp: v6_ip_int_from_parts_def split: sum.splits if_splits
              dest: hextet_loop_error [OF _ r1] hextet_loop_error [OF _ r2])
      qed
    qed
  qed
qed

lemma v6_ip_int_from_string_error: "v6_ip_int_from_string s = Inl e \<Longrightarrow> e = AddressValueError"
  by (auto simp: v6_ip_int_from_string_def Let_def split: if_splits sum.splits
      dest: v6_ip_int_from_parts_error IPv4Address_error)

lemma split_scope_id_error: "split_scope_id s = Inl e \<Longrightarrow> e = AddressValueError"
  by (auto simp: split_scope_id_def split: prod.splits if_splits)

lemma IPv6Address_error: "IPv6Address s = Inl e \<Longrightarrow> e = AddressValueError"
  by (auto simp: IPv6Address_def split: if_splits sum.splits prod.splits
      dest: v6_ip_int_from_string_error split_scope_id_error)

lemma IPv6Address_of_int_error: "IPv6Address_of_int n = Inl e \<Longrightarrow> e = AddressValueError"
  by (auto simp: IPv6Address_of_int_def split: sum.splits dest: check_int_address_error)

lemma v6_make_netmask_error: "v6_make_netmask a = Inl e \<Longrightarrow> is_ValueError e"
  by (auto simp: v6_make_netmask_def split: if_splits sum.splits netmask_arg.splits
      dest: IPv6Address_of_int_error prefix_from_prefix_string_error)

lemma IPv6Network_error: "IPv6Network s strict = Inl e \<Longrightarrow> is_ValueError e"
  by (auto simp: IPv6Network_def Let_def split: if_splits sum.splits prod.splits
      dest: split_addr_prefix_error IPv6Address_error v6_make_netmask_error IPv6Address_of_int_error)

section \<open>The examples of the specification, evaluated\<close>

lemma ex_v4_strict_one_slash:
  "ipv4 ''1.1.1.1/8'' True True True =
     Inr (V4Network \<lparr>v4_network_address = \<lparr>v4_ip = 16777216\<rparr>,
                     v4_netmask = \<lparr>v4_ip = 4278190080\<rparr>, v4_prefixlen = 8\<rparr>)"
  by code_simp

lemma ex_v4_strict_no_slash: "ipv4 ''1.1.1.1'' True True True = Inr (PyBool False)"
  by code_simp

lemma ex_v4_strict_two_slashes: "ipv4 ''1.1.1.1/8/8'' True True True = Inr (PyBool False)"
  by code_simp

lemma ex_v4_default_slash:
  "ipv4 ''1.1.1.1/8'' True False True =
     Inr (V4Network \<lparr>v4_network_address = \<lparr>v4_ip = 16777216\<rparr>,
                     v4_netmask = \<lparr>v4_ip = 4278190080\<rparr>, v4_prefixlen = 8\<rparr>)"
  by code_simp

lemma ex_v4_no_cidr_slash: "ipv4 ''1.1.1.1/8'' False False True = Inr (PyBool False)"
  by code_simp




lemma except_return_False_simps [simp]:
  "except_return_False (Inr v) = Inr v"
  "is_ValueError e \<Longrightarrow> except_return_False (Inl e) = Inr (PyBool False)"
  by (auto simp: except_return_False_def)

lemma ipv4_trichotomy:
  "ipv4 value cidr strict host_bit = Inr (PyBool False)
   \<or> (\<exists>n. ipv4 value cidr strict host_bit = Inr (V4Network n))
   \<or> (\<exists>a. ipv4 value cidr strict host_bit = Inr (V4Address a))"
  by (auto simp: ipv4_def ipv4_with_def split: sum.splits
      dest!: IPv4Network_error IPv4Address_error)

lemma ipv6_trichotomy:
  "ipv6 value cidr strict host_bit = Inr (PyBool False)
   \<or> (\<exists>n. ipv6 value cidr strict host_bit = Inr (V6Network n))
   \<or> (\<exists>a. ipv6 value cidr strict host_bit = Inr (V6Address a))"
  by (auto simp: ipv6_def ipv6_with_def split: sum.splits
      dest!: IPv6Network_error IPv6Address_error)

lemma ex_v4_no_host_bits:
  "ipv4 ''192.168.1.0/24'' True False False =
     Inr (V4Network \<lparr>v4_network_address = \<lparr>v4_ip = 3232235776\<rparr>,
                     v4_netmask = \<lparr>v4_ip = 4294967040\<rparr>, v4_prefixlen = 24\<rparr>)"
  by code_simp

lemma ex_v6_loopback_128:
  "ipv6 ''::1/128'' True False False =
     Inr (V6Network
           \<lparr>v6_network_address = \<lparr>v6_ip = 1, v6_scope_id = None\<rparr>,
            v6_netmask = \<lparr>v6_ip = 340282366920938463463374607431768211455, v6_scope_id = None\<rparr>,
            v6_prefixlen = 128\<rparr>)"
  by code_simp



lemma IPv4Network_strict_success:
  "IPv4Network address True = Inr n \<Longrightarrow> IPv4Network address False = Inr n"
  by (auto simp: IPv4Network_def Let_def split: sum.splits prod.splits if_splits)

lemma IPv6Network_strict_success:
  "IPv6Network address True = Inr n \<Longrightarrow> IPv6Network address False = Inr n"
  by (auto simp: IPv6Network_def Let_def split: sum.splits prod.splits if_splits)

lemma ipv4_host_bit_monotone:
  "succeeds (ipv4 value True strict False) \<Longrightarrow>
   ipv4 value True strict True = ipv4 value True strict False"
  by (auto simp: ipv4_def ipv4_with_def succeeds_def except_return_False_def
      split: sum.splits if_splits dest: IPv4Network_strict_success)

lemma ipv6_host_bit_monotone:
  "succeeds (ipv6 value True strict False) \<Longrightarrow>
   ipv6 value True strict True = ipv6 value True strict False"
  by (auto simp: ipv6_def ipv6_with_def succeeds_def except_return_False_def
      split: sum.splits if_splits dest: IPv6Network_strict_success)

section \<open>The network constructors on a value that parses\<close>

lemma and_neq_iff_bit: "(x AND y \<noteq> x) = (\<exists>i. bit x i \<and> \<not> bit y i)" for x y :: int
  by (auto simp: bit_eq_iff bit_and_iff)

lemma bit_ip_int_from_prefix:
  "bit (ip_int_from_prefix (2 ^ n - 1) p) i = (n - nat p \<le> i \<and> i < n)"
proof -
  have "(2::int) ^ n - 1 = mask n" by (simp add: mask_eq_exp_minus_1)
  then show ?thesis
    by (auto simp: ip_int_from_prefix_def bit_xor_iff bit_drop_bit_eq bit_mask_iff)
qed

lemma bit_length_nonneg: "0 \<le> bit_length n"
  by (simp add: bit_length_def)

lemma prefix_from_ip_int_range:
  "prefix_from_ip_int m n = Inr p \<Longrightarrow> 0 \<le> m \<Longrightarrow> 0 \<le> p \<and> p \<le> m"
  using bit_length_nonneg [of "NOT n AND (n - 1)"]
  by (auto simp: prefix_from_ip_int_def count_righthand_zero_bits_def Let_def min_def
      split: if_splits)

lemma prefix_from_prefix_string_range:
  "prefix_from_prefix_string m s = Inr p \<Longrightarrow> 0 \<le> p \<and> p \<le> m"
  by (auto simp: prefix_from_prefix_string_def split: if_splits sum.splits)

lemma v4_prefix_from_ip_string_range:
  "v4_prefix_from_ip_string s = Inr p \<Longrightarrow> 0 \<le> p \<and> p \<le> 32"
  by (auto simp: v4_prefix_from_ip_string_def IPV4LENGTH_def split: if_splits sum.splits
      dest!: prefix_from_ip_int_range)

lemma v4_make_netmask_result:
  assumes "v4_make_netmask m = Inr (nm, p)"
  shows "v4_ip nm = ip_int_from_prefix V4_ALL_ONES p" and "0 \<le> p" and "p \<le> 32"
    and "0 \<le> v4_ip nm" and "v4_ip nm \<le> V4_ALL_ONES"
  using assms
  by (auto simp: v4_make_netmask_def IPV4LENGTH_def IPv4Address_of_int_def check_int_address_def
      split: if_splits sum.splits netmask_arg.splits
      dest!: v4_prefix_from_ip_string_range prefix_from_prefix_string_range)

lemma v6_make_netmask_result:
  assumes "v6_make_netmask m = Inr (nm, p)"
  shows "v6_ip nm = ip_int_from_prefix V6_ALL_ONES p" and "0 \<le> p" and "p \<le> 128"
    and "0 \<le> v6_ip nm" and "v6_ip nm \<le> V6_ALL_ONES" and "v6_scope_id nm = None"
  using assms
  by (auto simp: v6_make_netmask_def IPV6LENGTH_def IPv6Address_of_int_def check_int_address_def
      split: if_splits sum.splits netmask_arg.splits
      dest!: prefix_from_prefix_string_range)

lemma v4_netmask_bits:
  "v4_make_netmask m = Inr (nm, p) \<Longrightarrow> bit (v4_ip nm) i = (32 - nat p \<le> i \<and> i < 32)"
  using bit_ip_int_from_prefix [of 32 p i]
  by (simp add: v4_make_netmask_result(1) V4_ALL_ONES_def)

lemma v6_netmask_bits:
  "v6_make_netmask m = Inr (nm, p) \<Longrightarrow> bit (v6_ip nm) i = (128 - nat p \<le> i \<and> i < 128)"
  using bit_ip_int_from_prefix [of 128 p i]
  by (simp add: v6_make_netmask_result(1) V6_ALL_ONES_def)

lemma and_netmask_in_range:
  fixes x y :: int
  assumes "0 \<le> y" and "y \<le> m"
  shows "check_int_address m (x AND y) = Inr ()"
proof -
  have "x AND y \<le> m" using assms by simp
  moreover have "0 \<le> x AND y" using assms(1) by simp
  ultimately show ?thesis by (auto simp: check_int_address_def)
qed

lemma IPv4Network_parsed:
  assumes "split_addr_prefix IPV4LENGTH address = Inr (addr, m)"
    and "IPv4Address addr = Inr a"
    and "v4_make_netmask m = Inr (nm, p)"
  shows "IPv4Network address strict =
     (if v4_ip a AND v4_ip nm \<noteq> v4_ip a then
        (if strict then Inl ValueError
         else Inr \<lparr>v4_network_address = \<lparr>v4_ip = v4_ip a AND v4_ip nm\<rparr>,
                   v4_netmask = nm, v4_prefixlen = p\<rparr>)
      else Inr \<lparr>v4_network_address = a, v4_netmask = nm, v4_prefixlen = p\<rparr>)"
  using assms and_netmask_in_range [OF v4_make_netmask_result(4,5) [OF assms(3)], of "v4_ip a"]
  by (simp add: IPv4Network_def Let_def IPv4Address_of_int_def)

lemma IPv6Network_parsed:
  assumes "split_addr_prefix IPV6LENGTH address = Inr (addr, m)"
    and "IPv6Address addr = Inr a"
    and "v6_make_netmask m = Inr (nm, p)"
  shows "IPv6Network address strict =
     (if v6_ip a AND v6_ip nm \<noteq> v6_ip a then
        (if strict then Inl ValueError
         else Inr \<lparr>v6_network_address = \<lparr>v6_ip = v6_ip a AND v6_ip nm, v6_scope_id = None\<rparr>,
                   v6_netmask = nm, v6_prefixlen = p\<rparr>)
      else Inr \<lparr>v6_network_address = a, v6_netmask = nm, v6_prefixlen = p\<rparr>)"
  using assms and_netmask_in_range [OF v6_make_netmask_result(4,5) [OF assms(3)], of "v6_ip a"]
  by (simp add: IPv6Network_def Let_def IPv6Address_of_int_def)

lemma split_addr_prefix_Nil: "split_addr_prefix mx [] = Inr ([], MaskInt mx)"
  by (simp add: split_addr_prefix_def split_optional_netmask_def)

lemma IPv4Address_Nil: "IPv4Address [] = Inl AddressValueError"
  by (simp add: IPv4Address_def v4_ip_int_from_string_def)

lemma IPv6Address_Nil: "IPv6Address [] = Inl AddressValueError"
  by (simp add: IPv6Address_def split_scope_id_def v6_ip_int_from_string_def)

lemma v4_parsed_nonempty:
  "split_addr_prefix mx address = Inr (addr, m) \<Longrightarrow> IPv4Address addr = Inr a \<Longrightarrow> address \<noteq> []"
  by (auto simp: split_addr_prefix_Nil IPv4Address_Nil)

lemma v6_parsed_nonempty:
  "split_addr_prefix mx address = Inr (addr, m) \<Longrightarrow> IPv6Address addr = Inr a \<Longrightarrow> address \<noteq> []"
  by (auto simp: split_addr_prefix_Nil IPv6Address_Nil)

lemma ipv4_cidr_parsed:
  assumes "split_addr_prefix IPV4LENGTH value = Inr (addr, m)"
    and "IPv4Address addr = Inr a"
    and "v4_make_netmask m = Inr (nm, p)"
    and "\<not> (strict \<and> count_list value CHR ''/'' \<noteq> 1)"
  shows "ipv4 value True strict host_bit =
     (if \<exists>i. bit (v4_ip a) i \<and> \<not> bit (v4_ip nm) i then
        (if host_bit then
           Inr (V4Network \<lparr>v4_network_address = \<lparr>v4_ip = v4_ip a AND v4_ip nm\<rparr>,
                           v4_netmask = nm, v4_prefixlen = p\<rparr>)
         else Inr (PyBool False))
      else Inr (V4Network \<lparr>v4_network_address = a, v4_netmask = nm, v4_prefixlen = p\<rparr>))"
  using assms(4) v4_parsed_nonempty [OF assms(1,2)]
  by (auto simp: ipv4_def ipv4_with_def IPv4Network_parsed [OF assms(1-3)]
      and_neq_iff_bit [symmetric])

lemma ipv6_cidr_parsed:
  assumes "split_addr_prefix IPV6LENGTH value = Inr (addr, m)"
    and "IPv6Address addr = Inr a"
    and "v6_make_netmask m = Inr (nm, p)"
    and "\<not> (strict \<and> count_list value CHR ''/'' \<noteq> 1)"
  shows "ipv6 value True strict host_bit =
     (if \<exists>i. bit (v6_ip a) i \<and> \<not> bit (v6_ip nm) i then
        (if host_bit then
           Inr (V6Network
                 \<lparr>v6_network_address = \<lparr>v6_ip = v6_ip a AND v6_ip nm, v6_scope_id = None\<rparr>,
                  v6_netmask = nm, v6_prefixlen = p\<rparr>)
         else Inr (PyBool False))
      else Inr (V6Network \<lparr>v6_network_address = a, v6_netmask = nm, v6_prefixlen = p\<rparr>))"
  using assms(4) v6_parsed_nonempty [OF assms(1,2)]
  by (auto simp: ipv6_def ipv6_with_def IPv6Network_parsed [OF assms(1-3)]
      and_neq_iff_bit [symmetric])

lemma ex_v4_host_bits_set: "ipv4 ''192.168.1.1/24'' True False False = Inr (PyBool False)"
  by code_simp

lemma ex_v4_host_bits_tolerated:
  "ipv4 ''192.168.1.1/24'' True False True =
     Inr (V4Network \<lparr>v4_network_address = \<lparr>v4_ip = 3232235776\<rparr>,
                     v4_netmask = \<lparr>v4_ip = 4294967040\<rparr>, v4_prefixlen = 24\<rparr>)"
  by code_simp

section \<open>The characters of an address of each family\<close>

text \<open>An IPv4 address consists of digits and dots; an IPv6 address has at least two
  colons. So no string is an address of both families.\<close>

lemma str_split_parts_subset: "p \<in> set (str_split sep s) \<Longrightarrow> set p \<subseteq> set s"
proof (induction s arbitrary: p)
  case Nil
  then show ?case by simp
next
  case (Cons c cs)
  show ?case
  proof (cases "c = sep")
    case True
    with Cons show ?thesis by auto
  next
    case False
    obtain q qs where q: "str_split sep cs = q # qs"
      using str_split_not_Nil [of sep cs] by (cases "str_split sep cs") auto
    with False Cons.prems have "p = c # q \<or> p \<in> set qs" by auto
    then show ?thesis
    proof
      assume "p = c # q"
      moreover have "set q \<subseteq> set cs" using Cons.IH [of q] q by simp
      ultimately show ?thesis by auto
    next
      assume "p \<in> set qs"
      then have "set p \<subseteq> set cs" using Cons.IH [of p] q by simp
      then show ?thesis by auto
    qed
  qed
qed

lemma str_split_covers:
  "c \<in> set s \<Longrightarrow> c \<noteq> sep \<Longrightarrow> \<exists>p \<in> set (str_split sep s). c \<in> set p"
proof (induction s)
  case Nil
  then show ?case by simp
next
  case (Cons d ds)
  obtain q qs where q: "str_split sep ds = q # qs"
    using str_split_not_Nil [of sep ds] by (cases "str_split sep ds") auto
  show ?case
  proof (cases "d = sep")
    case True
    with Cons show ?thesis by auto
  next
    case False
    show ?thesis
    proof (cases "c = d")
      case True
      with False q show ?thesis by auto
    next
      case False
      with Cons have "\<exists>p \<in> set (q # qs). c \<in> set p" using q by auto
      with \<open>d \<noteq> sep\<close> q show ?thesis by auto
    qed
  qed
qed

lemma str_partition_head_subset: "str_partition sep s = (a, x, b) \<Longrightarrow> set a \<subseteq> set s"
  by (induction s arbitrary: a) (auto split: if_splits prod.splits)

lemma parse_octet_digits: "parse_octet s = Inr n \<Longrightarrow> list_all isdigit_char s"
  by (auto simp: parse_octet_def str_isdigit_def split: if_splits)

lemma parse_octets_digits:
  "parse_octets ss = Inr ns \<Longrightarrow> s \<in> set ss \<Longrightarrow> list_all isdigit_char s"
  by (induction ss arbitrary: ns) (auto split: sum.splits dest: parse_octet_digits)

lemma colon_not_digit: "\<not> isdigit_char CHR '':''"
  by (simp add: isdigit_char_def)

lemma IPv4Address_no_colon: "IPv4Address s = Inr a \<Longrightarrow> CHR '':'' \<notin> set s"
proof
  assume ok: "IPv4Address s = Inr a" and colon: "CHR '':'' \<in> set s"
  from ok obtain ns where ns: "parse_octets (str_split CHR ''.'' s) = Inr ns"
    by (auto simp: IPv4Address_def v4_ip_int_from_string_def Let_def split: if_splits sum.splits)
  from colon obtain p where p: "p \<in> set (str_split CHR ''.'' s)" "CHR '':'' \<in> set p"
    using str_split_covers [of "CHR '':''" s "CHR ''.''"] by auto
  from parse_octets_digits [OF ns p(1)] p(2) show False
    by (auto simp: list_all_iff colon_not_digit)
qed

lemma v6_ip_int_from_string_has_colon:
  "v6_ip_int_from_string s = Inr n \<Longrightarrow> CHR '':'' \<in> set s"
proof -
  assume "v6_ip_int_from_string s = Inr n"
  then have "3 \<le> length (str_split CHR '':'' s)"
    by (auto simp: v6_ip_int_from_string_def Let_def split: if_splits)
  then have "0 < count_list s CHR '':''"
    by (simp add: length_str_split)
  then show ?thesis
    using count_notin [of "CHR '':''" s] by (cases "CHR '':'' \<in> set s") simp_all
qed

lemma IPv6Address_has_colon:
  assumes "IPv6Address s = Inr a"
  shows "CHR '':'' \<in> set s"
proof -
  from assms obtain addr_str scope_id n
    where sc: "split_scope_id s = Inr (addr_str, scope_id)"
      and ip: "v6_ip_int_from_string addr_str = Inr n"
    by (auto simp: IPv6Address_def split: if_splits sum.splits prod.splits)
  obtain x b where pt: "str_partition CHR ''%'' s = (addr_str, x, b)"
    using sc by (auto simp: split_scope_id_def split: prod.splits if_splits)
  from v6_ip_int_from_string_has_colon [OF ip] str_partition_head_subset [OF pt]
  show ?thesis by blast
qed

lemma no_cidr_success_parses:
  "succeeds (ipv4 value False strict host_bit) \<Longrightarrow> \<exists>a. IPv4Address value = Inr a"
  "succeeds (ipv6 value False strict host_bit) \<Longrightarrow> \<exists>a. IPv6Address value = Inr a"
  by (auto simp: succeeds_def ipv4_def ipv4_with_def ipv6_def ipv6_with_def
      except_return_False_def split: sum.splits if_splits)

text \<open>The IPv4-mapped address of the specification, and a string with letters and dots.\<close>

lemma ex_v6_mapped_default:
  "ipv6 ''::ffff:192.0.2.128'' True False True =
     Inr (V6Network
           \<lparr>v6_network_address = \<lparr>v6_ip = 281473902969472, v6_scope_id = None\<rparr>,
            v6_netmask = \<lparr>v6_ip = 340282366920938463463374607431768211455, v6_scope_id = None\<rparr>,
            v6_prefixlen = 128\<rparr>)"
  by code_simp

lemma ex_v6_mapped_bare:
  "ipv6 ''::ffff:192.0.2.128'' False False True =
     Inr (V6Address \<lparr>v6_ip = 281473902969472, v6_scope_id = None\<rparr>)"
  by code_simp

lemma ex_v4_mapped_bare: "ipv4 ''::ffff:192.0.2.128'' False False True = Inr (PyBool False)"
  by code_simp

lemma ex_v4_mapped_default: "ipv4 ''::ffff:192.0.2.128'' True False True = Inr (PyBool False)"
  by code_simp

lemma ex_v6_abc_default: "ipv6 ''abc.0.0.1'' True False True = Inr (PyBool False)"
  by code_simp

lemma ex_v6_abc_bare: "ipv6 ''abc.0.0.1'' False False True = Inr (PyBool False)"
  by code_simp

section \<open>The netmask caches\<close>





















section \<open>The decorated calls\<close>





section \<open>Properties of the validators\<close>

text \<open>
  C5. For the empty string and every setting of \<open>cidr\<close>, \<open>strict\<close> and \<open>host_bit\<close>,
  \<open>ipv4\<close> and \<open>ipv6\<close> return \<^verbatim>\<open>False\<close> at once: the result is the returned value
  \<open>PyBool False\<close> whatever the two constructors would do, so neither is consulted and no
  exception is raised or caught.
\<close>

theorem empty_value_returns_False:
  "ipv4_with Network4 Address4 [] cidr strict host_bit = Inr (PyBool False)
   \<and> ipv6_with Network6 Address6 [] cidr strict host_bit = Inr (PyBool False)
   \<and> ipv4 [] cidr strict host_bit = Inr (PyBool False)
   \<and> ipv6 [] cidr strict host_bit = Inr (PyBool False)"
  by (simp add: ipv4_def ipv6_def ipv4_with_def ipv6_with_def)

text \<open>
  C8. With \<open>cidr = False\<close> the flags \<open>strict\<close> and \<open>host_bit\<close> have no effect: any two
  settings of them give the same outcome, for \<open>ipv4\<close> and for \<open>ipv6\<close>.
\<close>

theorem no_cidr_ignores_strict_and_host_bit:
  "ipv4 value False s1 h1 = ipv4 value False s2 h2
   \<and> ipv6 value False s1 h1 = ipv6 value False s2 h2"
  by (simp add: ipv4_def ipv6_def ipv4_with_def ipv6_with_def)

text \<open>
  C1. For every string and every setting of the flags, \<open>ipv4\<close> and \<open>ipv6\<close> return a value
  and no exception leaves them: the outcome is \<^verbatim>\<open>False\<close> or the object built. The error of
  strict mode, and every exception a constructor raises on the value, becomes \<^verbatim>\<open>False\<close>.
\<close>

theorem validators_never_raise:
  "(ipv4 value cidr strict host_bit = Inr (PyBool False)
     \<or> (\<exists>n. ipv4 value cidr strict host_bit = Inr (V4Network n))
     \<or> (\<exists>a. ipv4 value cidr strict host_bit = Inr (V4Address a)))
   \<and> (ipv6 value cidr strict host_bit = Inr (PyBool False)
     \<or> (\<exists>n. ipv6 value cidr strict host_bit = Inr (V6Network n))
     \<or> (\<exists>a. ipv6 value cidr strict host_bit = Inr (V6Address a)))
   \<and> (cidr \<and> strict \<and> count_list value CHR ''/'' \<noteq> 1 \<longrightarrow>
        ipv4 value cidr strict host_bit = Inr (PyBool False)
        \<and> ipv6 value cidr strict host_bit = Inr (PyBool False))
   \<and> (cidr \<and> IPv4Network value (\<not> host_bit) = Inl e \<longrightarrow>
        ipv4 value cidr strict host_bit = Inr (PyBool False))
   \<and> (\<not> cidr \<and> IPv4Address value = Inl e \<longrightarrow>
        ipv4 value cidr strict host_bit = Inr (PyBool False))
   \<and> (cidr \<and> IPv6Network value (\<not> host_bit) = Inl e \<longrightarrow>
        ipv6 value cidr strict host_bit = Inr (PyBool False))
   \<and> (\<not> cidr \<and> IPv6Address value = Inl e \<longrightarrow>
        ipv6 value cidr strict host_bit = Inr (PyBool False))"
proof -
  have strict_err: "cidr \<and> strict \<and> count_list value CHR ''/'' \<noteq> 1 \<longrightarrow>
        ipv4 value cidr strict host_bit = Inr (PyBool False)
        \<and> ipv6 value cidr strict host_bit = Inr (PyBool False)"
    by (simp add: ipv4_def ipv6_def ipv4_with_def ipv6_with_def)
  have n4: "cidr \<and> IPv4Network value (\<not> host_bit) = Inl e \<longrightarrow>
        ipv4 value cidr strict host_bit = Inr (PyBool False)"
    by (auto simp: ipv4_def ipv4_with_def dest: IPv4Network_error)
  have a4: "\<not> cidr \<and> IPv4Address value = Inl e \<longrightarrow>
        ipv4 value cidr strict host_bit = Inr (PyBool False)"
    by (auto simp: ipv4_def ipv4_with_def dest: IPv4Address_error)
  have n6: "cidr \<and> IPv6Network value (\<not> host_bit) = Inl e \<longrightarrow>
        ipv6 value cidr strict host_bit = Inr (PyBool False)"
    by (auto simp: ipv6_def ipv6_with_def dest: IPv6Network_error)
  have a6: "\<not> cidr \<and> IPv6Address value = Inl e \<longrightarrow>
        ipv6 value cidr strict host_bit = Inr (PyBool False)"
    by (auto simp: ipv6_def ipv6_with_def dest: IPv6Address_error)
  from ipv4_trichotomy ipv6_trichotomy strict_err n4 a4 n6 a6 show ?thesis
    by blast
qed


theorem validators_never_raise_witness:
  "(count_list ''1.1.1.1'' CHR ''/'' \<noteq> 1
     \<and> ipv4 ''1.1.1.1'' True True True = Inr (PyBool False)
     \<and> ipv6 ''1.1.1.1'' True True True = Inr (PyBool False))
   \<and> (IPv4Network ''900.80.70.11'' False = Inl AddressValueError
     \<and> ipv4 ''900.80.70.11'' True False True = Inr (PyBool False))
   \<and> (IPv4Address ''1.1.1.1/8'' = Inl AddressValueError
     \<and> ipv4 ''1.1.1.1/8'' False False True = Inr (PyBool False))
   \<and> (IPv6Network ''abc.0.0.1'' False = Inl AddressValueError
     \<and> ipv6 ''abc.0.0.1'' True False True = Inr (PyBool False))
   \<and> (IPv6Address ''abc.0.0.1'' = Inl AddressValueError
     \<and> ipv6 ''abc.0.0.1'' False False True = Inr (PyBool False))"
proof -
  have h1: "count_list ''1.1.1.1'' CHR ''/'' \<noteq> 1" by simp
  have h2: "IPv4Network ''900.80.70.11'' False = Inl AddressValueError" by code_simp
  have h3: "IPv4Address ''1.1.1.1/8'' = Inl AddressValueError" by code_simp
  have h4: "IPv6Network ''abc.0.0.1'' False = Inl AddressValueError" by code_simp
  have h5: "IPv6Address ''abc.0.0.1'' = Inl AddressValueError" by code_simp
  have c1: "ipv4 ''1.1.1.1'' True True True = Inr (PyBool False)
            \<and> ipv6 ''1.1.1.1'' True True True = Inr (PyBool False)"
    using validators_never_raise [of "''1.1.1.1''" True True True] h1 by blast
  have c2: "ipv4 ''900.80.70.11'' True False True = Inr (PyBool False)"
    using validators_never_raise [of "''900.80.70.11''" True False True AddressValueError] h2 by simp
  have c3: "ipv4 ''1.1.1.1/8'' False False True = Inr (PyBool False)"
    using validators_never_raise [of "''1.1.1.1/8''" False False True AddressValueError] h3 by simp
  have c4: "ipv6 ''abc.0.0.1'' True False True = Inr (PyBool False)"
    using validators_never_raise [of "''abc.0.0.1''" True False True AddressValueError] h4 by simp
  have c5: "ipv6 ''abc.0.0.1'' False False True = Inr (PyBool False)"
    using validators_never_raise [of "''abc.0.0.1''" False False True AddressValueError] h5 by simp
  from h1 h2 h3 h4 h5 c1 c2 c3 c4 c5 show ?thesis by blast
qed

text \<open>
  C2. For a non-empty value with \<open>cidr\<close> and \<open>strict\<close> set, a number of slashes other than
  one makes \<open>ipv4\<close> and \<open>ipv6\<close> return \<^verbatim>\<open>False\<close> whatever the constructors are, so before
  any parse; with exactly one slash the outcome is that of the network constructor on the
  value. \<^verbatim>\<open>ipv4("1.1.1.1/8", strict=True)\<close> succeeds, \<^verbatim>\<open>"1.1.1.1"\<close> and
  \<^verbatim>\<open>"1.1.1.1/8/8"\<close> fail.
\<close>

theorem strict_requires_one_slash:
  "(value \<noteq> [] \<and> count_list value CHR ''/'' \<noteq> 1 \<longrightarrow>
      ipv4_with Network4 Address4 value True True host_bit = Inr (PyBool False)
      \<and> ipv6_with Network6 Address6 value True True host_bit = Inr (PyBool False))
   \<and> (value \<noteq> [] \<and> count_list value CHR ''/'' = 1 \<longrightarrow>
      ipv4_with Network4 Address4 value True True host_bit =
        except_return_False
          (case Network4 value (\<not> host_bit) of Inl e \<Rightarrow> Inl e | Inr n \<Rightarrow> Inr (V4Network n))
      \<and> ipv6_with Network6 Address6 value True True host_bit =
        except_return_False
          (case Network6 value (\<not> host_bit) of Inl e \<Rightarrow> Inl e | Inr n \<Rightarrow> Inr (V6Network n)))
   \<and> ipv4 ''1.1.1.1/8'' True True True =
        Inr (V4Network \<lparr>v4_network_address = \<lparr>v4_ip = 16777216\<rparr>,
                        v4_netmask = \<lparr>v4_ip = 4278190080\<rparr>, v4_prefixlen = 8\<rparr>)
   \<and> ipv4 ''1.1.1.1'' True True True = Inr (PyBool False)
   \<and> ipv4 ''1.1.1.1/8/8'' True True True = Inr (PyBool False)"
proof -
  have a: "value \<noteq> [] \<and> count_list value CHR ''/'' \<noteq> 1 \<longrightarrow>
      ipv4_with Network4 Address4 value True True host_bit = Inr (PyBool False)
      \<and> ipv6_with Network6 Address6 value True True host_bit = Inr (PyBool False)"
    by (simp add: ipv4_with_def ipv6_with_def)
  have b: "value \<noteq> [] \<and> count_list value CHR ''/'' = 1 \<longrightarrow>
      ipv4_with Network4 Address4 value True True host_bit =
        except_return_False
          (case Network4 value (\<not> host_bit) of Inl e \<Rightarrow> Inl e | Inr n \<Rightarrow> Inr (V4Network n))
      \<and> ipv6_with Network6 Address6 value True True host_bit =
        except_return_False
          (case Network6 value (\<not> host_bit) of Inl e \<Rightarrow> Inl e | Inr n \<Rightarrow> Inr (V6Network n))"
    by (simp add: ipv4_with_def ipv6_with_def)
  from a b ex_v4_strict_one_slash ex_v4_strict_no_slash ex_v4_strict_two_slashes
  show ?thesis by blast
qed

theorem strict_requires_one_slash_witness:
  "(''1.1.1.1/8/8'' \<noteq> [] \<and> count_list ''1.1.1.1/8/8'' CHR ''/'' \<noteq> 1
     \<and> ipv4_with IPv4Network IPv4Address ''1.1.1.1/8/8'' True True True = Inr (PyBool False)
     \<and> ipv6_with IPv6Network IPv6Address ''1.1.1.1/8/8'' True True True = Inr (PyBool False))
   \<and> (''1.1.1.1/8'' \<noteq> [] \<and> count_list ''1.1.1.1/8'' CHR ''/'' = 1
     \<and> ipv4_with IPv4Network IPv4Address ''1.1.1.1/8'' True True True =
         except_return_False
           (case IPv4Network ''1.1.1.1/8'' (\<not> True) of
              Inl e \<Rightarrow> Inl e | Inr n \<Rightarrow> Inr (V4Network n))
     \<and> ipv6_with IPv6Network IPv6Address ''1.1.1.1/8'' True True True =
         except_return_False
           (case IPv6Network ''1.1.1.1/8'' (\<not> True) of
              Inl e \<Rightarrow> Inl e | Inr n \<Rightarrow> Inr (V6Network n)))"
proof -
  have h1: "''1.1.1.1/8/8'' \<noteq> [] \<and> count_list ''1.1.1.1/8/8'' CHR ''/'' \<noteq> 1" by simp
  have h2: "''1.1.1.1/8'' \<noteq> [] \<and> count_list ''1.1.1.1/8'' CHR ''/'' = 1" by simp
  from h1 h2
    strict_requires_one_slash [of "''1.1.1.1/8/8''" IPv4Network IPv4Address True IPv6Network IPv6Address]
    strict_requires_one_slash [of "''1.1.1.1/8''" IPv4Network IPv4Address True IPv6Network IPv6Address]
  show ?thesis by blast
qed

text \<open>
  C4. With \<open>cidr = False\<close> a non-empty value is handed to the address constructor of the
  family, whose outcome is the validator's; the address constructors reject every value that
  contains a slash. \<^verbatim>\<open>ipv4("1.1.1.1/8", cidr=False)\<close> fails and the same value succeeds
  with the default \<open>cidr = True\<close>.
\<close>

theorem no_cidr_parses_bare_address:
  "(value \<noteq> [] \<longrightarrow>
      ipv4_with Network4 Address4 value False strict host_bit =
        except_return_False
          (case Address4 value of Inl e \<Rightarrow> Inl e | Inr a \<Rightarrow> Inr (V4Address a))
      \<and> ipv6_with Network6 Address6 value False strict host_bit =
        except_return_False
          (case Address6 value of Inl e \<Rightarrow> Inl e | Inr a \<Rightarrow> Inr (V6Address a)))
   \<and> (CHR ''/'' \<in> set value \<longrightarrow>
      ipv4 value False strict host_bit = Inr (PyBool False)
      \<and> ipv6 value False strict host_bit = Inr (PyBool False))
   \<and> ipv4 ''1.1.1.1/8'' False False True = Inr (PyBool False)
   \<and> ipv4 ''1.1.1.1/8'' True False True =
        Inr (V4Network \<lparr>v4_network_address = \<lparr>v4_ip = 16777216\<rparr>,
                        v4_netmask = \<lparr>v4_ip = 4278190080\<rparr>, v4_prefixlen = 8\<rparr>)"
proof -
  have a: "value \<noteq> [] \<longrightarrow>
      ipv4_with Network4 Address4 value False strict host_bit =
        except_return_False
          (case Address4 value of Inl e \<Rightarrow> Inl e | Inr a \<Rightarrow> Inr (V4Address a))
      \<and> ipv6_with Network6 Address6 value False strict host_bit =
        except_return_False
          (case Address6 value of Inl e \<Rightarrow> Inl e | Inr a \<Rightarrow> Inr (V6Address a))"
    by (simp add: ipv4_with_def ipv6_with_def)
  have b4: "CHR ''/'' \<in> set value \<longrightarrow> ipv4 value False strict host_bit = Inr (PyBool False)"
    by (auto simp: ipv4_def ipv4_with_def IPv4Address_def)
  have b6: "CHR ''/'' \<in> set value \<longrightarrow> ipv6 value False strict host_bit = Inr (PyBool False)"
    by (auto simp: ipv6_def ipv6_with_def IPv6Address_def)
  from a b4 b6 ex_v4_no_cidr_slash ex_v4_default_slash show ?thesis
    by blast
qed

theorem no_cidr_parses_bare_address_witness:
  "(''1.1.1.1/8'' \<noteq> []
     \<and> ipv4_with IPv4Network IPv4Address ''1.1.1.1/8'' False False True =
         except_return_False
           (case IPv4Address ''1.1.1.1/8'' of Inl e \<Rightarrow> Inl e | Inr a \<Rightarrow> Inr (V4Address a))
     \<and> ipv6_with IPv6Network IPv6Address ''1.1.1.1/8'' False False True =
         except_return_False
           (case IPv6Address ''1.1.1.1/8'' of Inl e \<Rightarrow> Inl e | Inr a \<Rightarrow> Inr (V6Address a)))
   \<and> (CHR ''/'' \<in> set ''1.1.1.1/8''
     \<and> ipv4 ''1.1.1.1/8'' False False True = Inr (PyBool False)
     \<and> ipv6 ''1.1.1.1/8'' False False True = Inr (PyBool False))"
proof -
  have h1: "''1.1.1.1/8'' \<noteq> []" by simp
  have h2: "CHR ''/'' \<in> set ''1.1.1.1/8''" by simp
  from h1 h2
    no_cidr_parses_bare_address
      [of "''1.1.1.1/8''" IPv4Network IPv4Address False True IPv6Network IPv6Address]
  show ?thesis by blast
qed




text \<open>
  C10. Acceptance is monotone in \<open>host_bit\<close>: with \<open>cidr = True\<close> and any \<open>strict\<close>, a value
  that succeeds with \<open>host_bit = False\<close> succeeds with \<open>host_bit = True\<close> (with the very same
  result), for \<open>ipv4\<close> and for \<open>ipv6\<close>.
\<close>

theorem host_bit_monotone:
  "(succeeds (ipv4 value True strict False) \<longrightarrow>
      succeeds (ipv4 value True strict True)
      \<and> ipv4 value True strict True = ipv4 value True strict False)
   \<and> (succeeds (ipv6 value True strict False) \<longrightarrow>
      succeeds (ipv6 value True strict True)
      \<and> ipv6 value True strict True = ipv6 value True strict False)"
  using ipv4_host_bit_monotone [of "value" strict] ipv6_host_bit_monotone [of "value" strict]
  by auto

theorem host_bit_monotone_witness:
  "(succeeds (ipv4 ''192.168.1.0/24'' True False False)
     \<and> succeeds (ipv4 ''192.168.1.0/24'' True False True))
   \<and> (succeeds (ipv6 ''::1/128'' True False False)
     \<and> succeeds (ipv6 ''::1/128'' True False True))"
proof -
  have h4: "succeeds (ipv4 ''192.168.1.0/24'' True False False)"
    by (simp add: ex_v4_no_host_bits succeeds_def)
  have h6: "succeeds (ipv6 ''::1/128'' True False False)"
    by (simp add: ex_v6_loopback_128 succeeds_def)
  from h4 h6 host_bit_monotone [of "''192.168.1.0/24''" False]
    host_bit_monotone [of "''::1/128''" False]
  show ?thesis by blast
qed

text \<open>
  C3. Take a value whose address part and mask part parse (and, under \<open>strict\<close>, with one
  slash). Its netmask has exactly the bits of the declared prefix. With \<open>cidr = True\<close> and
  \<open>host_bit = False\<close> the validator returns \<^verbatim>\<open>False\<close> when the address has a bit set outside
  the netmask, and the network otherwise; with \<open>host_bit = True\<close> it succeeds in both cases,
  with the address cut down to the netmask. \<^verbatim>\<open>ipv4("192.168.1.1/24", host_bit=False)\<close> fails
  and \<^verbatim>\<open>ipv4("192.168.1.0/24", host_bit=False)\<close> succeeds.
\<close>

theorem host_bits_rejected_unless_allowed:
  "(split_addr_prefix IPV4LENGTH value = Inr (addr4, m4) \<and> IPv4Address addr4 = Inr a4
      \<and> v4_make_netmask m4 = Inr (nm4, p4) \<and> \<not> (strict \<and> count_list value CHR ''/'' \<noteq> 1) \<longrightarrow>
        (\<forall>i. bit (v4_ip nm4) i = (32 - nat p4 \<le> i \<and> i < 32))
        \<and> ((\<exists>i. bit (v4_ip a4) i \<and> \<not> bit (v4_ip nm4) i) \<longrightarrow>
              ipv4 value True strict False = Inr (PyBool False))
        \<and> (\<not> (\<exists>i. bit (v4_ip a4) i \<and> \<not> bit (v4_ip nm4) i) \<longrightarrow>
              ipv4 value True strict False =
                Inr (V4Network \<lparr>v4_network_address = a4, v4_netmask = nm4, v4_prefixlen = p4\<rparr>))
        \<and> (\<exists>n. ipv4 value True strict True = Inr (V4Network n)
              \<and> v4_ip (v4_network_address n) = v4_ip a4 AND v4_ip nm4
              \<and> v4_netmask n = nm4 \<and> v4_prefixlen n = p4))
   \<and> (split_addr_prefix IPV6LENGTH value = Inr (addr6, m6) \<and> IPv6Address addr6 = Inr a6
      \<and> v6_make_netmask m6 = Inr (nm6, p6) \<and> \<not> (strict \<and> count_list value CHR ''/'' \<noteq> 1) \<longrightarrow>
        (\<forall>i. bit (v6_ip nm6) i = (128 - nat p6 \<le> i \<and> i < 128))
        \<and> ((\<exists>i. bit (v6_ip a6) i \<and> \<not> bit (v6_ip nm6) i) \<longrightarrow>
              ipv6 value True strict False = Inr (PyBool False))
        \<and> (\<not> (\<exists>i. bit (v6_ip a6) i \<and> \<not> bit (v6_ip nm6) i) \<longrightarrow>
              ipv6 value True strict False =
                Inr (V6Network \<lparr>v6_network_address = a6, v6_netmask = nm6, v6_prefixlen = p6\<rparr>))
        \<and> (\<exists>n. ipv6 value True strict True = Inr (V6Network n)
              \<and> v6_ip (v6_network_address n) = v6_ip a6 AND v6_ip nm6
              \<and> v6_netmask n = nm6 \<and> v6_prefixlen n = p6))
   \<and> ipv4 ''192.168.1.1/24'' True False False = Inr (PyBool False)
   \<and> ipv4 ''192.168.1.0/24'' True False False =
        Inr (V4Network \<lparr>v4_network_address = \<lparr>v4_ip = 3232235776\<rparr>,
                        v4_netmask = \<lparr>v4_ip = 4294967040\<rparr>, v4_prefixlen = 24\<rparr>)
   \<and> ipv4 ''192.168.1.1/24'' True False True =
        Inr (V4Network \<lparr>v4_network_address = \<lparr>v4_ip = 3232235776\<rparr>,
                        v4_netmask = \<lparr>v4_ip = 4294967040\<rparr>, v4_prefixlen = 24\<rparr>)"
proof -
  have v4: "(\<forall>i. bit (v4_ip nm4) i = (32 - nat p4 \<le> i \<and> i < 32))
        \<and> ((\<exists>i. bit (v4_ip a4) i \<and> \<not> bit (v4_ip nm4) i) \<longrightarrow>
              ipv4 value True strict False = Inr (PyBool False))
        \<and> (\<not> (\<exists>i. bit (v4_ip a4) i \<and> \<not> bit (v4_ip nm4) i) \<longrightarrow>
              ipv4 value True strict False =
                Inr (V4Network \<lparr>v4_network_address = a4, v4_netmask = nm4, v4_prefixlen = p4\<rparr>))
        \<and> (\<exists>n. ipv4 value True strict True = Inr (V4Network n)
              \<and> v4_ip (v4_network_address n) = v4_ip a4 AND v4_ip nm4
              \<and> v4_netmask n = nm4 \<and> v4_prefixlen n = p4)"
    if h: "split_addr_prefix IPV4LENGTH value = Inr (addr4, m4)" "IPv4Address addr4 = Inr a4"
      "v4_make_netmask m4 = Inr (nm4, p4)" "\<not> (strict \<and> count_list value CHR ''/'' \<noteq> 1)"
  proof -
    note r = ipv4_cidr_parsed [OF h]
    have bits: "\<forall>i. bit (v4_ip nm4) i = (32 - nat p4 \<le> i \<and> i < 32)"
      using v4_netmask_bits [OF h(3)] by blast
    have f: "(\<exists>i. bit (v4_ip a4) i \<and> \<not> bit (v4_ip nm4) i) \<longrightarrow>
              ipv4 value True strict False = Inr (PyBool False)"
      by (simp add: r)
    have t: "\<not> (\<exists>i. bit (v4_ip a4) i \<and> \<not> bit (v4_ip nm4) i) \<longrightarrow>
              ipv4 value True strict False =
                Inr (V4Network \<lparr>v4_network_address = a4, v4_netmask = nm4, v4_prefixlen = p4\<rparr>)"
      by (simp add: r)
    have hb: "\<exists>n. ipv4 value True strict True = Inr (V4Network n)
              \<and> v4_ip (v4_network_address n) = v4_ip a4 AND v4_ip nm4
              \<and> v4_netmask n = nm4 \<and> v4_prefixlen n = p4"
    proof (cases "\<exists>i. bit (v4_ip a4) i \<and> \<not> bit (v4_ip nm4) i")
      case True
      then show ?thesis by (simp add: r)
    next
      case False
      then have "v4_ip a4 AND v4_ip nm4 = v4_ip a4"
        using and_neq_iff_bit [of "v4_ip a4" "v4_ip nm4"] by blast
      with False show ?thesis by (simp add: r)
    qed
    from bits f t hb show ?thesis by blast
  qed
  have v6: "(\<forall>i. bit (v6_ip nm6) i = (128 - nat p6 \<le> i \<and> i < 128))
        \<and> ((\<exists>i. bit (v6_ip a6) i \<and> \<not> bit (v6_ip nm6) i) \<longrightarrow>
              ipv6 value True strict False = Inr (PyBool False))
        \<and> (\<not> (\<exists>i. bit (v6_ip a6) i \<and> \<not> bit (v6_ip nm6) i) \<longrightarrow>
              ipv6 value True strict False =
                Inr (V6Network \<lparr>v6_network_address = a6, v6_netmask = nm6, v6_prefixlen = p6\<rparr>))
        \<and> (\<exists>n. ipv6 value True strict True = Inr (V6Network n)
              \<and> v6_ip (v6_network_address n) = v6_ip a6 AND v6_ip nm6
              \<and> v6_netmask n = nm6 \<and> v6_prefixlen n = p6)"
    if h: "split_addr_prefix IPV6LENGTH value = Inr (addr6, m6)" "IPv6Address addr6 = Inr a6"
      "v6_make_netmask m6 = Inr (nm6, p6)" "\<not> (strict \<and> count_list value CHR ''/'' \<noteq> 1)"
  proof -
    note r = ipv6_cidr_parsed [OF h]
    have bits: "\<forall>i. bit (v6_ip nm6) i = (128 - nat p6 \<le> i \<and> i < 128)"
      using v6_netmask_bits [OF h(3)] by blast
    have f: "(\<exists>i. bit (v6_ip a6) i \<and> \<not> bit (v6_ip nm6) i) \<longrightarrow>
              ipv6 value True strict False = Inr (PyBool False)"
      by (simp add: r)
    have t: "\<not> (\<exists>i. bit (v6_ip a6) i \<and> \<not> bit (v6_ip nm6) i) \<longrightarrow>
              ipv6 value True strict False =
                Inr (V6Network \<lparr>v6_network_address = a6, v6_netmask = nm6, v6_prefixlen = p6\<rparr>)"
      by (simp add: r)
    have hb: "\<exists>n. ipv6 value True strict True = Inr (V6Network n)
              \<and> v6_ip (v6_network_address n) = v6_ip a6 AND v6_ip nm6
              \<and> v6_netmask n = nm6 \<and> v6_prefixlen n = p6"
    proof (cases "\<exists>i. bit (v6_ip a6) i \<and> \<not> bit (v6_ip nm6) i")
      case True
      then show ?thesis by (simp add: r)
    next
      case False
      then have "v6_ip a6 AND v6_ip nm6 = v6_ip a6"
        using and_neq_iff_bit [of "v6_ip a6" "v6_ip nm6"] by blast
      with False show ?thesis by (simp add: r)
    qed
    from bits f t hb show ?thesis by blast
  qed
  from v4 v6 ex_v4_host_bits_set ex_v4_no_host_bits ex_v4_host_bits_tolerated
  show ?thesis by blast
qed

theorem host_bits_rejected_unless_allowed_witness:
  "(split_addr_prefix IPV4LENGTH ''192.168.1.1/24'' = Inr (''192.168.1.1'', MaskStr ''24'')
     \<and> IPv4Address ''192.168.1.1'' = Inr \<lparr>v4_ip = 3232235777\<rparr>
     \<and> v4_make_netmask (MaskStr ''24'') = Inr (\<lparr>v4_ip = 4294967040\<rparr>, 24)
     \<and> \<not> (False \<and> count_list ''192.168.1.1/24'' CHR ''/'' \<noteq> 1)
     \<and> (\<exists>i. bit (v4_ip \<lparr>v4_ip = 3232235777\<rparr>) i \<and> \<not> bit (v4_ip \<lparr>v4_ip = 4294967040\<rparr>) i)
     \<and> ipv4 ''192.168.1.1/24'' True False False = Inr (PyBool False))
   \<and> (split_addr_prefix IPV4LENGTH ''192.168.1.0/24'' = Inr (''192.168.1.0'', MaskStr ''24'')
     \<and> IPv4Address ''192.168.1.0'' = Inr \<lparr>v4_ip = 3232235776\<rparr>
     \<and> v4_make_netmask (MaskStr ''24'') = Inr (\<lparr>v4_ip = 4294967040\<rparr>, 24)
     \<and> \<not> (False \<and> count_list ''192.168.1.0/24'' CHR ''/'' \<noteq> 1)
     \<and> \<not> (\<exists>i. bit (v4_ip \<lparr>v4_ip = 3232235776\<rparr>) i \<and> \<not> bit (v4_ip \<lparr>v4_ip = 4294967040\<rparr>) i)
     \<and> ipv4 ''192.168.1.0/24'' True False False = Inr (V4Network \<lparr>v4_network_address = \<lparr>v4_ip = 3232235776\<rparr>, v4_netmask = \<lparr>v4_ip = 4294967040\<rparr>, v4_prefixlen = 24\<rparr>))
   \<and> (split_addr_prefix IPV6LENGTH ''2001:db8::1/32'' = Inr (''2001:db8::1'', MaskStr ''32'')
     \<and> IPv6Address ''2001:db8::1'' = Inr \<lparr>v6_ip = 42540766411282592856903984951653826561, v6_scope_id = None\<rparr>
     \<and> v6_make_netmask (MaskStr ''32'') = Inr (\<lparr>v6_ip = 340282366841710300949110269838224261120, v6_scope_id = None\<rparr>, 32)
     \<and> \<not> (False \<and> count_list ''2001:db8::1/32'' CHR ''/'' \<noteq> 1)
     \<and> (\<exists>i. bit (v6_ip \<lparr>v6_ip = 42540766411282592856903984951653826561, v6_scope_id = None\<rparr>) i \<and> \<not> bit (v6_ip \<lparr>v6_ip = 340282366841710300949110269838224261120, v6_scope_id = None\<rparr>) i)
     \<and> ipv6 ''2001:db8::1/32'' True False False = Inr (PyBool False))
   \<and> (split_addr_prefix IPV6LENGTH ''2001:db8::/32'' = Inr (''2001:db8::'', MaskStr ''32'')
     \<and> IPv6Address ''2001:db8::'' = Inr \<lparr>v6_ip = 42540766411282592856903984951653826560, v6_scope_id = None\<rparr>
     \<and> v6_make_netmask (MaskStr ''32'') = Inr (\<lparr>v6_ip = 340282366841710300949110269838224261120, v6_scope_id = None\<rparr>, 32)
     \<and> \<not> (False \<and> count_list ''2001:db8::/32'' CHR ''/'' \<noteq> 1)
     \<and> \<not> (\<exists>i. bit (v6_ip \<lparr>v6_ip = 42540766411282592856903984951653826560, v6_scope_id = None\<rparr>) i \<and> \<not> bit (v6_ip \<lparr>v6_ip = 340282366841710300949110269838224261120, v6_scope_id = None\<rparr>) i)
     \<and> ipv6 ''2001:db8::/32'' True False False = Inr (V6Network \<lparr>v6_network_address = \<lparr>v6_ip = 42540766411282592856903984951653826560, v6_scope_id = None\<rparr>, v6_netmask = \<lparr>v6_ip = 340282366841710300949110269838224261120, v6_scope_id = None\<rparr>, v6_prefixlen = 32\<rparr>))"
proof -
  have h11: "split_addr_prefix IPV4LENGTH ''192.168.1.1/24'' = Inr (''192.168.1.1'', MaskStr ''24'')"
    by code_simp
  have h12: "IPv4Address ''192.168.1.1'' = Inr \<lparr>v4_ip = 3232235777\<rparr>"
    by code_simp
  have h13: "v4_make_netmask (MaskStr ''24'') = Inr (\<lparr>v4_ip = 4294967040\<rparr>, 24)"
    by code_simp
  have h14: "\<not> (False \<and> count_list ''192.168.1.1/24'' CHR ''/'' \<noteq> 1)"
    by simp
  have n1: "(3232235777::int) AND 4294967040 \<noteq> 3232235777"
    by simp
  have b1: "(\<exists>i. bit (v4_ip \<lparr>v4_ip = 3232235777\<rparr>) i \<and> \<not> bit (v4_ip \<lparr>v4_ip = 4294967040\<rparr>) i)"
    using n1 and_neq_iff_bit [of "3232235777" "4294967040"] by simp
  have c1: "ipv4 ''192.168.1.1/24'' True False False = Inr (PyBool False)"
    using host_bits_rejected_unless_allowed
      [of "''192.168.1.1/24''" "''192.168.1.1''" "MaskStr ''24''" "\<lparr>v4_ip = 3232235777\<rparr>" "\<lparr>v4_ip = 4294967040\<rparr>" 24 False]
      h11 h12 h13 h14 b1 by blast
  have h21: "split_addr_prefix IPV4LENGTH ''192.168.1.0/24'' = Inr (''192.168.1.0'', MaskStr ''24'')"
    by code_simp
  have h22: "IPv4Address ''192.168.1.0'' = Inr \<lparr>v4_ip = 3232235776\<rparr>"
    by code_simp
  have h23: "v4_make_netmask (MaskStr ''24'') = Inr (\<lparr>v4_ip = 4294967040\<rparr>, 24)"
    by code_simp
  have h24: "\<not> (False \<and> count_list ''192.168.1.0/24'' CHR ''/'' \<noteq> 1)"
    by simp
  have n2: "(3232235776::int) AND 4294967040 = 3232235776"
    by simp
  have b2: "\<not> (\<exists>i. bit (v4_ip \<lparr>v4_ip = 3232235776\<rparr>) i \<and> \<not> bit (v4_ip \<lparr>v4_ip = 4294967040\<rparr>) i)"
    using n2 and_neq_iff_bit [of "3232235776" "4294967040"] by simp
  have c2: "ipv4 ''192.168.1.0/24'' True False False = Inr (V4Network \<lparr>v4_network_address = \<lparr>v4_ip = 3232235776\<rparr>, v4_netmask = \<lparr>v4_ip = 4294967040\<rparr>, v4_prefixlen = 24\<rparr>)"
    using host_bits_rejected_unless_allowed
      [of "''192.168.1.0/24''" "''192.168.1.0''" "MaskStr ''24''" "\<lparr>v4_ip = 3232235776\<rparr>" "\<lparr>v4_ip = 4294967040\<rparr>" 24 False]
      h21 h22 h23 h24 b2 by blast
  have h31: "split_addr_prefix IPV6LENGTH ''2001:db8::1/32'' = Inr (''2001:db8::1'', MaskStr ''32'')"
    by code_simp
  have h32: "IPv6Address ''2001:db8::1'' = Inr \<lparr>v6_ip = 42540766411282592856903984951653826561, v6_scope_id = None\<rparr>"
    by code_simp
  have h33: "v6_make_netmask (MaskStr ''32'') = Inr (\<lparr>v6_ip = 340282366841710300949110269838224261120, v6_scope_id = None\<rparr>, 32)"
    by code_simp
  have h34: "\<not> (False \<and> count_list ''2001:db8::1/32'' CHR ''/'' \<noteq> 1)"
    by simp
  have n3: "(42540766411282592856903984951653826561::int) AND 340282366841710300949110269838224261120 \<noteq> 42540766411282592856903984951653826561"
    by simp
  have b3: "(\<exists>i. bit (v6_ip \<lparr>v6_ip = 42540766411282592856903984951653826561, v6_scope_id = None\<rparr>) i \<and> \<not> bit (v6_ip \<lparr>v6_ip = 340282366841710300949110269838224261120, v6_scope_id = None\<rparr>) i)"
    using n3 and_neq_iff_bit [of "42540766411282592856903984951653826561" "340282366841710300949110269838224261120"] by simp
  have c3: "ipv6 ''2001:db8::1/32'' True False False = Inr (PyBool False)"
    using host_bits_rejected_unless_allowed
      [of "''2001:db8::1/32''" _ _ _ _ _ False "''2001:db8::1''" "MaskStr ''32''" "\<lparr>v6_ip = 42540766411282592856903984951653826561, v6_scope_id = None\<rparr>" "\<lparr>v6_ip = 340282366841710300949110269838224261120, v6_scope_id = None\<rparr>" 32]
      h31 h32 h33 h34 b3 by blast
  have h41: "split_addr_prefix IPV6LENGTH ''2001:db8::/32'' = Inr (''2001:db8::'', MaskStr ''32'')"
    by code_simp
  have h42: "IPv6Address ''2001:db8::'' = Inr \<lparr>v6_ip = 42540766411282592856903984951653826560, v6_scope_id = None\<rparr>"
    by code_simp
  have h43: "v6_make_netmask (MaskStr ''32'') = Inr (\<lparr>v6_ip = 340282366841710300949110269838224261120, v6_scope_id = None\<rparr>, 32)"
    by code_simp
  have h44: "\<not> (False \<and> count_list ''2001:db8::/32'' CHR ''/'' \<noteq> 1)"
    by simp
  have n4: "(42540766411282592856903984951653826560::int) AND 340282366841710300949110269838224261120 = 42540766411282592856903984951653826560"
    by simp
  have b4: "\<not> (\<exists>i. bit (v6_ip \<lparr>v6_ip = 42540766411282592856903984951653826560, v6_scope_id = None\<rparr>) i \<and> \<not> bit (v6_ip \<lparr>v6_ip = 340282366841710300949110269838224261120, v6_scope_id = None\<rparr>) i)"
    using n4 and_neq_iff_bit [of "42540766411282592856903984951653826560" "340282366841710300949110269838224261120"] by simp
  have c4: "ipv6 ''2001:db8::/32'' True False False = Inr (V6Network \<lparr>v6_network_address = \<lparr>v6_ip = 42540766411282592856903984951653826560, v6_scope_id = None\<rparr>, v6_netmask = \<lparr>v6_ip = 340282366841710300949110269838224261120, v6_scope_id = None\<rparr>, v6_prefixlen = 32\<rparr>)"
    using host_bits_rejected_unless_allowed
      [of "''2001:db8::/32''" _ _ _ _ _ False "''2001:db8::''" "MaskStr ''32''" "\<lparr>v6_ip = 42540766411282592856903984951653826560, v6_scope_id = None\<rparr>" "\<lparr>v6_ip = 340282366841710300949110269838224261120, v6_scope_id = None\<rparr>" 32]
      h41 h42 h43 h44 b4 by blast
  from h11 h12 h13 h14 b1 c1 h21 h22 h23 h24 b2 c2 h31 h32 h33 h34 b3 c3 h41 h42 h43 h44 b4 c4
  show ?thesis by blast
qed

text \<open>
  C6. The two families exclude each other: a string that \<^verbatim>\<open>IPv4Address\<close> parses makes
  \<open>ipv6\<close> with \<open>cidr = False\<close> return \<^verbatim>\<open>False\<close>, a string that \<^verbatim>\<open>IPv6Address\<close> parses makes
  \<open>ipv4\<close> with \<open>cidr = False\<close> return \<^verbatim>\<open>False\<close>, and no string succeeds with both, whatever
  the other flags. The IPv4-mapped \<^verbatim>\<open>::ffff:192.0.2.128\<close> is accepted by \<open>ipv6\<close> and refused by
  \<open>ipv4\<close>, and \<open>ipv6\<close> refuses \<^verbatim>\<open>abc.0.0.1\<close>.
\<close>

theorem families_are_exclusive:
  "(IPv4Address value = Inr a4 \<longrightarrow> ipv6 value False strict host_bit = Inr (PyBool False))
   \<and> (IPv6Address value = Inr a6 \<longrightarrow> ipv4 value False strict host_bit = Inr (PyBool False))
   \<and> \<not> (succeeds (ipv4 value False strict host_bit)
        \<and> succeeds (ipv6 value False strict' host_bit'))
   \<and> ipv6 ''::ffff:192.0.2.128'' True False True =
        Inr (V6Network
              \<lparr>v6_network_address = \<lparr>v6_ip = 281473902969472, v6_scope_id = None\<rparr>,
               v6_netmask = \<lparr>v6_ip = 340282366920938463463374607431768211455, v6_scope_id = None\<rparr>,
               v6_prefixlen = 128\<rparr>)
   \<and> ipv6 ''::ffff:192.0.2.128'' False False True =
        Inr (V6Address \<lparr>v6_ip = 281473902969472, v6_scope_id = None\<rparr>)
   \<and> ipv4 ''::ffff:192.0.2.128'' True False True = Inr (PyBool False)
   \<and> ipv4 ''::ffff:192.0.2.128'' False False True = Inr (PyBool False)
   \<and> ipv6 ''abc.0.0.1'' True False True = Inr (PyBool False)
   \<and> ipv6 ''abc.0.0.1'' False False True = Inr (PyBool False)"
proof -
  have disjoint: "\<not> (IPv4Address value = Inr x \<and> IPv6Address value = Inr y)" for x y
    using IPv4Address_no_colon [of "value" x] IPv6Address_has_colon [of "value" y] by blast
  have a: "IPv4Address value = Inr a4 \<longrightarrow> ipv6 value False strict host_bit = Inr (PyBool False)"
  proof (cases "IPv6Address value")
    case (Inl e)
    then show ?thesis
      by (auto simp: ipv6_def ipv6_with_def dest: IPv6Address_error)
  next
    case (Inr a)
    with disjoint [of a4 a] show ?thesis by blast
  qed
  have b: "IPv6Address value = Inr a6 \<longrightarrow> ipv4 value False strict host_bit = Inr (PyBool False)"
  proof (cases "IPv4Address value")
    case (Inl e)
    then show ?thesis
      by (auto simp: ipv4_def ipv4_with_def dest: IPv4Address_error)
  next
    case (Inr a)
    with disjoint [of a a6] show ?thesis by blast
  qed
  have c: "\<not> (succeeds (ipv4 value False strict host_bit)
        \<and> succeeds (ipv6 value False strict' host_bit'))"
    using no_cidr_success_parses(1) [of "value" strict host_bit]
      no_cidr_success_parses(2) [of "value" strict' host_bit'] disjoint
    by blast
  show ?thesis
    by (intro conjI a b c ex_v6_mapped_default ex_v6_mapped_bare ex_v4_mapped_default
        ex_v4_mapped_bare ex_v6_abc_default ex_v6_abc_bare)
qed

theorem families_are_exclusive_witness:
  "(IPv4Address ''123.0.0.7'' = Inr \<lparr>v4_ip = 2063597575\<rparr>
     \<and> ipv6 ''123.0.0.7'' False False True = Inr (PyBool False))
   \<and> (IPv6Address ''::ffff:192.0.2.128'' = Inr \<lparr>v6_ip = 281473902969472, v6_scope_id = None\<rparr>
     \<and> ipv4 ''::ffff:192.0.2.128'' False False True = Inr (PyBool False))"
proof -
  have h4: "IPv4Address ''123.0.0.7'' = Inr \<lparr>v4_ip = 2063597575\<rparr>"
    by code_simp
  have h6: "IPv6Address ''::ffff:192.0.2.128'' = Inr \<lparr>v6_ip = 281473902969472, v6_scope_id = None\<rparr>"
    by code_simp
  have r6: "ipv6 ''123.0.0.7'' False False True = Inr (PyBool False)"
    by (rule families_are_exclusive [THEN conjunct1, THEN mp, OF h4])
  have r4: "ipv4 ''::ffff:192.0.2.128'' False False True = Inr (PyBool False)"
    by (rule families_are_exclusive [THEN conjunct2, THEN conjunct1, THEN mp, OF h6])
  show ?thesis
    by (intro conjI h4 h6 r4 r6)
qed




end
